theory Spec2Isabelle
  imports Complex_Main "HOL-Library.Word" "HOL-Library.Multiset" "HOL-Library.Sublist"
begin

section \<open>Strings\<close>

text \<open>
  A JavaScript string is a sequence of UTF-16 code units. \<open>text.length\<close>, \<open>slice\<close>,
  \<open>includes\<close>, \<open>startsWith\<close>, \<open>split\<close>, \<open>trim\<close> and a regular expression without the
  \<open>u\<close> flag work on code units; the spread \<open>[...text]\<close> iterates code points, pairing a
  high surrogate with the low surrogate that follows it.
  Slot identifiers (the keys of \<open>slots.yaml\<close>: delivery, commute, morning, ...) are ASCII
  names and are kept as HOL strings.
\<close>

type_synonym ustring = "16 word list"

definition isHighSurrogate :: "16 word \<Rightarrow> bool" where
  "isHighSurrogate c \<longleftrightarrow> 0xD800 \<le> c \<and> c \<le> 0xDBFF"

definition isLowSurrogate :: "16 word \<Rightarrow> bool" where
  "isLowSurrogate c \<longleftrightarrow> 0xDC00 \<le> c \<and> c \<le> 0xDFFF"

text \<open>\<open>[...text]\<close>: the code points of a string, each as the string of its code units.\<close>

fun codepoints :: "ustring \<Rightarrow> ustring list" where
  "codepoints [] = []"
| "codepoints [c] = [[c]]"
| "codepoints (c # d # cs) =
     (if isHighSurrogate c \<and> isLowSurrogate d then [c, d] # codepoints cs
      else [c] # codepoints (d # cs))"

text \<open>
  The class \<open>\s\<close> of a JavaScript regular expression, which is also what \<open>trim\<close> strips:
  WhiteSpace and LineTerminator of ECMAScript.
\<close>

definition isWhitespace :: "16 word \<Rightarrow> bool" where
  "isWhitespace c \<longleftrightarrow>
     c \<in> set [0x09, 0x0A, 0x0B, 0x0C, 0x0D, 0x20, 0xA0, 0x1680, 0x2028, 0x2029,
               0x202F, 0x205F, 0x3000, 0xFEFF]
     \<or> (0x2000 \<le> c \<and> c \<le> 0x200A)"

text \<open>\<open>text.includes(word)\<close>: \<open>word\<close> occurs in \<open>text\<close> as a contiguous run.\<close>

fun includes_str :: "ustring \<Rightarrow> ustring \<Rightarrow> bool" where
  "includes_str [] w = (w = [])"
| "includes_str (c # cs) w = (take (length w) (c # cs) = w \<or> includes_str cs w)"

definition startsWith :: "ustring \<Rightarrow> ustring \<Rightarrow> bool" where
  "startsWith s p \<longleftrightarrow> take (length p) s = p"

definition trim :: "ustring \<Rightarrow> ustring" where
  "trim s = rev (dropWhile isWhitespace (rev (dropWhile isWhitespace s)))"

text \<open>\<open>content.split('\n')\<close>: the empty string splits into one empty line.\<close>

fun split :: "16 word \<Rightarrow> ustring \<Rightarrow> ustring list" where
  "split d [] = [[]]"
| "split d (c # cs) =
     (if c = d then [] # split d cs
      else (case split d cs of
              [] \<Rightarrow> [[c]]
            | w # ws \<Rightarrow> (c # w) # ws))"

text \<open>
  \<open>loadLines\<close> of validate.ts, and the same pipeline in \<open>loadFallbackTweets\<close> and
  \<open>loadHashtags\<close>: the lines of a configuration file, trimmed, without the empty lines and
  the lines that start with \<open>#\<close>. \<open>None\<close> is a file that cannot be read: the empty list.
\<close>

definition loadLines :: "ustring option \<Rightarrow> ustring list" where
  "loadLines file =
     (case file of
        None \<Rightarrow> []
      | Some content \<Rightarrow>
          filter (\<lambda>line. line \<noteq> [] \<and> \<not> startsWith line [0x23])
            (map trim (split 0x0A content)))"

section \<open>Validation (validate.ts)\<close>

record PostRecord =
  p_text :: ustring
  p_slot :: string
  p_timestamp :: ustring
  p_hasImage :: bool

text \<open>
  A JavaScript \<open>Set\<close> of strings keeps its elements in insertion order, each once:
  a list without repetition. \<open>setAdd\<close> is \<open>Set.prototype.add\<close>, \<open>newSet\<close> is
  \<open>new Set(iterable)\<close>.
\<close>

definition setAdd :: "'a list \<Rightarrow> 'a \<Rightarrow> 'a list" where
  "setAdd s x = (if x \<in> set s then s else s @ [x])"

definition newSet :: "'a list \<Rightarrow> 'a list" where
  "newSet xs = foldl setAdd [] xs"

text \<open>The loop of \<open>getBigrams\<close>: \<open>chars[i] + chars[i + 1]\<close> for \<open>i < chars.length - 1\<close>.\<close>

fun adjacentPairs :: "ustring list \<Rightarrow> ustring list" where
  "adjacentPairs (a # b # cs) = (a @ b) # adjacentPairs (b # cs)"
| "adjacentPairs cs = []"

definition getBigrams :: "ustring \<Rightarrow> ustring list" where
  "getBigrams t =
     foldl setAdd [] (adjacentPairs (codepoints (filter (\<lambda>c. \<not> isWhitespace c) t)))"

text \<open>
  Numbers that the code divides or compares with a fraction are reals: the quotient of two
  set sizes, the thresholds 0.6 and 0.5, the draws of \<open>Math.random()\<close>.
\<close>

definition jaccardSimilarity :: "ustring list \<Rightarrow> ustring list \<Rightarrow> real" where
  "jaccardSimilarity set1 set2 =
     (let intersection = newSet (filter (\<lambda>x. x \<in> set set2) set1);
          union = newSet (set1 @ set2)
      in if length union = 0 then 0
         else real (length intersection) / real (length union))"

record SimilarityResult =
  sim_valid :: bool
  maxSimilarity :: real
  mostSimilar :: "ustring option"

text \<open>One pass of the loop over \<open>recentPosts\<close>: the running maximum and its text.\<close>

definition similarityStep ::
  "ustring list \<Rightarrow> real \<times> ustring option \<Rightarrow> PostRecord \<Rightarrow> real \<times> ustring option" where
  "similarityStep newBigrams acc post =
     (let similarity = jaccardSimilarity newBigrams (getBigrams (p_text post))
      in if similarity > fst acc then (similarity, Some (p_text post)) else acc)"

definition checkSimilarity :: "ustring \<Rightarrow> PostRecord list \<Rightarrow> real \<Rightarrow> SimilarityResult" where
  "checkSimilarity t recentPosts threshold =
     (if length recentPosts = 0
      then \<lparr>sim_valid = True, maxSimilarity = 0, mostSimilar = None\<rparr>
      else (let acc = foldl (similarityStep (getBigrams t)) (0, None) recentPosts
            in \<lparr>sim_valid = (fst acc \<le> threshold), maxSimilarity = fst acc,
                mostSimilar = snd acc\<rparr>))"

text \<open>
  The static inputs of a run: the contents of the word-list files under \<open>config/\<close>
  (\<open>None\<close> when a file cannot be read), the entries of \<open>slots.yaml\<close> in file order, and the
  two Unicode tables the validator consults: which code points the regular expression
  \<open>\p{Emoji_Presentation}|\p{Extended_Pictographic}\<close> matches, and \<open>toLowerCase\<close>.
\<close>

record SlotConfig =
  sc_hours :: "int list"
  sc_weight :: real

record Config =
  logistics_words_file :: "ustring option"
  forbidden_file :: "ustring option"
  fallback_tweets_file :: "ustring option"
  hashtags_file :: "ustring option"
  slots_yaml :: "(string \<times> SlotConfig) list"
  isEmoji :: "ustring \<Rightarrow> bool"
  toLowerCase :: "ustring \<Rightarrow> ustring"

definition LOGISTICS_WORDS :: "Config \<Rightarrow> ustring list" where
  "LOGISTICS_WORDS cfg = loadLines (logistics_words_file cfg)"

definition FORBIDDEN_WORDS :: "Config \<Rightarrow> ustring list" where
  "FORBIDDEN_WORDS cfg = loadLines (forbidden_file cfg)"

definition checkLength :: "ustring \<Rightarrow> bool" where
  "checkLength t \<longleftrightarrow> length (codepoints t) \<le> 140"

definition countEmoji :: "Config \<Rightarrow> ustring \<Rightarrow> nat" where
  "countEmoji cfg t = length (filter (isEmoji cfg) (codepoints t))"

definition checkEmoji :: "Config \<Rightarrow> ustring \<Rightarrow> bool" where
  "checkEmoji cfg t \<longleftrightarrow> countEmoji cfg t \<le> 2"

text \<open>\<open>checkForbiddenWords\<close> and \<open>checkLogisticsWord\<close> return \<open>{valid, found}\<close>.\<close>

definition checkForbiddenWords :: "Config \<Rightarrow> ustring \<Rightarrow> bool \<times> ustring list" where
  "checkForbiddenWords cfg t =
     (let lowerText = toLowerCase cfg t;
          found = filter (\<lambda>word. includes_str lowerText (toLowerCase cfg word))
                    (FORBIDDEN_WORDS cfg)
      in (length found = 0, found))"

definition checkLogisticsWord :: "Config \<Rightarrow> ustring \<Rightarrow> bool \<times> ustring list" where
  "checkLogisticsWord cfg t =
     (let found = filter (\<lambda>word. includes_str t word) (LOGISTICS_WORDS cfg)
      in (length found > 0, found))"

text \<open>
  The messages \<open>validateTweet\<close> pushes, by kind, with the number or the words each one
  prints.
\<close>

datatype validation_error =
    LengthExceeded nat
  | EmojiExceeded nat
  | ForbiddenFound "ustring list"
  | NoLogisticsWord
  | TooSimilar real

record ValidationResult =
  valid :: bool
  errors :: "validation_error list"

text \<open>
  \<open>validateTweet(text, recentPosts)\<close> has two parameters. run.ts calls it with the slot
  as a third argument, which JavaScript drops: the slot is a parameter of the model that
  the body, like the source's, never reads.
\<close>

definition validateTweet :: "Config \<Rightarrow> ustring \<Rightarrow> PostRecord list \<Rightarrow> string \<Rightarrow> ValidationResult" where
  "validateTweet cfg t recentPosts slot =
     (let errors1 = (if \<not> checkLength t then [LengthExceeded (length (codepoints t))] else []);
          errors2 = errors1 @ (if \<not> checkEmoji cfg t then [EmojiExceeded (countEmoji cfg t)] else []);
          forbidden = checkForbiddenWords cfg t;
          errors3 = errors2 @ (if \<not> fst forbidden then [ForbiddenFound (snd forbidden)] else []);
          logistics = checkLogisticsWord cfg t;
          errors4 = errors3 @ (if \<not> fst logistics then [NoLogisticsWord] else []);
          similarity = checkSimilarity t recentPosts (6 / 10);
          errors5 = errors4 @ (if \<not> sim_valid similarity
                               then [TooSimilar (maxSimilarity similarity)] else [])
      in \<lparr>valid = (length errors5 = 0), errors = errors5\<rparr>)"

section \<open>The clock (utils/jst.ts)\<close>

text \<open>
  One reading of the wall clock, already shifted to UTC+9: what \<open>getJSTDateString\<close>,
  \<open>getJSTTimeString\<close>, \<open>getJSTHour\<close> and \<open>Date.now\<close> return. A function that reads the
  clock several times in a row is given one reading.
\<close>

record Clock =
  dateString :: ustring
  timeString :: ustring
  hourJST :: int
  nowMs :: int

definition getJSTTimestamp :: "Clock \<Rightarrow> ustring" where
  "getJSTTimestamp clk = dateString clk @ [0x20] @ timeString clk"

definition isSameJSTDay :: "Clock \<Rightarrow> ustring option \<Rightarrow> bool" where
  "isSameJSTDay clk dateStr =
     (case dateStr of
        None \<Rightarrow> False
      | Some d \<Rightarrow> if d = [] then False else d = dateString clk)"

section \<open>The state (state.ts)\<close>

datatype mood =
    Happy | Neutral | Tired | Lonely | Excited | Angry
  | Frustrated | Proud | Melancholy | Playful | Relieved | Anxious

text \<open>
  Counters and the energy are JavaScript numbers that only ever hold integers here:
  \<open>int\<close>. A field that may be \<open>null\<close> is an option.
\<close>

record AgentState =
  mood :: mood
  energy :: int
  last_posts :: "PostRecord list"
  today_slots_used :: "string list"
  today_post_count :: int
  today_goodnight_posted :: bool
  today_simple_goodnight_posted :: bool
  today_morning_posted :: bool
  today_max_posts :: int
  today_narrative :: ustring
  month_total_posts :: int
  month_image_posts :: int
  month_string :: "ustring option"
  last_image_date :: "ustring option"
  last_post_date :: "ustring option"
  last_post_time :: "ustring option"
  last_post_timestamp_ms :: "int option"
  today_skipped :: bool
  today_skip_count :: int
  ng_retry_count :: int
  fallback_used_count :: int
  created_at :: "ustring option"
  updated_at :: "ustring option"

text \<open>
  What \<open>JSON.parse\<close> gives for \<open>state.json\<close>: the same fields, where the six that
  \<open>loadState\<close> migrates may be absent (\<open>undefined\<close>: \<open>None\<close>).
\<close>

record StoredState =
  r_mood :: mood
  r_energy :: int
  r_last_posts :: "PostRecord list"
  r_today_slots_used :: "string list"
  r_today_post_count :: int
  r_today_goodnight_posted :: bool
  r_today_simple_goodnight_posted :: "bool option"
  r_today_morning_posted :: "bool option"
  r_today_max_posts :: "int option"
  r_today_narrative :: "ustring option"
  r_month_total_posts :: int
  r_month_image_posts :: int
  r_month_string :: "ustring option"
  r_last_image_date :: "ustring option"
  r_last_post_date :: "ustring option"
  r_last_post_time :: "ustring option"
  r_last_post_timestamp_ms :: "int option option"
  r_today_skipped :: bool
  r_today_skip_count :: "int option"
  r_ng_retry_count :: int
  r_fallback_used_count :: int
  r_created_at :: "ustring option"
  r_updated_at :: "ustring option"

text \<open>
  The state file: absent, unreadable (\<open>JSON.parse\<close> or a later access throws), or a stored
  state.
\<close>

datatype StateFile = NoFile | Unreadable | Stored StoredState

text \<open>
  \<open>randomDailyMaxPosts\<close> draws twice from \<open>Math.random()\<close>; the two draws are its argument.
\<close>

definition randomDailyMaxPosts :: "real \<times> real \<Rightarrow> int" where
  "randomDailyMaxPosts u =
     (if fst u < 3 / 10 then \<lfloor>snd u * 5\<rfloor> + 8 else \<lfloor>snd u * 3\<rfloor> + 13)"

definition DEFAULT_STATE :: AgentState where
  "DEFAULT_STATE =
     \<lparr>mood = Neutral, energy = 70, last_posts = [], today_slots_used = [],
      today_post_count = 0, today_goodnight_posted = False,
      today_simple_goodnight_posted = False, today_morning_posted = False,
      today_max_posts = 15, today_narrative = [], month_total_posts = 0,
      month_image_posts = 0, month_string = None, last_image_date = None,
      last_post_date = None, last_post_time = None, last_post_timestamp_ms = None,
      today_skipped = False, today_skip_count = 0, ng_retry_count = 0,
      fallback_used_count = 0, created_at = None, updated_at = None\<rparr>"

text \<open>\<open>JSON.stringify\<close> of a state, read back: every migrated field is present.\<close>

definition toStored :: "AgentState \<Rightarrow> StoredState" where
  "toStored s =
     \<lparr>r_mood = mood s, r_energy = energy s, r_last_posts = last_posts s,
      r_today_slots_used = today_slots_used s, r_today_post_count = today_post_count s,
      r_today_goodnight_posted = today_goodnight_posted s,
      r_today_simple_goodnight_posted = Some (today_simple_goodnight_posted s),
      r_today_morning_posted = Some (today_morning_posted s),
      r_today_max_posts = Some (today_max_posts s),
      r_today_narrative = Some (today_narrative s),
      r_month_total_posts = month_total_posts s, r_month_image_posts = month_image_posts s,
      r_month_string = month_string s, r_last_image_date = last_image_date s,
      r_last_post_date = last_post_date s, r_last_post_time = last_post_time s,
      r_last_post_timestamp_ms = Some (last_post_timestamp_ms s),
      r_today_skipped = today_skipped s, r_today_skip_count = Some (today_skip_count s),
      r_ng_retry_count = ng_retry_count s, r_fallback_used_count = fallback_used_count s,
      r_created_at = created_at s, r_updated_at = updated_at s\<rparr>"

text \<open>What a run calls on the outside world, in order.\<close>

datatype event =
    SaveState AgentState
  | GenerateTweet nat
  | UploadMedia ustring
  | CreateTweet ustring
  | CreateTweetWithMedia ustring ustring

text \<open>
  \<open>saveState\<close> stamps \<open>updated_at\<close> on the object it is given and overwrites the file:
  the stamped state and the new file.
\<close>

definition saveState :: "Clock \<Rightarrow> AgentState \<Rightarrow> AgentState \<times> StateFile" where
  "saveState clk s =
     (let s' = s\<lparr>updated_at := Some (getJSTTimestamp clk)\<rparr> in (s', Stored (toStored s')))"

text \<open>The three stages of \<open>loadState\<close> on a parsed file, in the source's order.\<close>

definition dayRollover :: "Clock \<Rightarrow> real \<times> real \<Rightarrow> StoredState \<Rightarrow> StoredState" where
  "dayRollover clk u r =
     (if \<not> isSameJSTDay clk (r_last_post_date r)
      then r\<lparr>r_today_slots_used := [],
             r_today_post_count := 0,
             r_today_goodnight_posted := False,
             r_today_simple_goodnight_posted := Some False,
             r_today_morning_posted := Some False,
             r_today_skipped := False,
             r_today_skip_count := Some 0,
             r_today_max_posts := Some (randomDailyMaxPosts u),
             r_today_narrative := Some [],
             r_energy := 80\<rparr>
      else r)"

definition migrate :: "real \<times> real \<Rightarrow> StoredState \<Rightarrow> AgentState" where
  "migrate u r =
     \<lparr>mood = r_mood r, energy = r_energy r, last_posts = r_last_posts r,
      today_slots_used = r_today_slots_used r, today_post_count = r_today_post_count r,
      today_goodnight_posted = r_today_goodnight_posted r,
      today_simple_goodnight_posted =
        (case r_today_simple_goodnight_posted r of None \<Rightarrow> False | Some b \<Rightarrow> b),
      today_morning_posted =
        (case r_today_morning_posted r of None \<Rightarrow> False | Some b \<Rightarrow> b),
      today_max_posts =
        (case r_today_max_posts r of None \<Rightarrow> randomDailyMaxPosts u | Some n \<Rightarrow> n),
      today_narrative = (case r_today_narrative r of None \<Rightarrow> [] | Some t \<Rightarrow> t),
      month_total_posts = r_month_total_posts r, month_image_posts = r_month_image_posts r,
      month_string = r_month_string r, last_image_date = r_last_image_date r,
      last_post_date = r_last_post_date r, last_post_time = r_last_post_time r,
      last_post_timestamp_ms =
        (case r_last_post_timestamp_ms r of None \<Rightarrow> None | Some t \<Rightarrow> t),
      today_skipped = r_today_skipped r,
      today_skip_count = (case r_today_skip_count r of None \<Rightarrow> 0 | Some n \<Rightarrow> n),
      ng_retry_count = r_ng_retry_count r, fallback_used_count = r_fallback_used_count r,
      created_at = r_created_at r, updated_at = r_updated_at r\<rparr>"

definition monthRollover :: "Clock \<Rightarrow> AgentState \<Rightarrow> AgentState" where
  "monthRollover clk s =
     (let currentMonth = take 7 (dateString clk)
      in if month_string s \<noteq> Some currentMonth
         then s\<lparr>month_total_posts := 0, month_image_posts := 0,
                month_string := Some currentMonth\<rparr>
         else s)"

text \<open>
  \<open>loadState\<close>: the state, the file it leaves and the outside calls it made. It writes the
  file only when there was none.
\<close>

definition loadState ::
  "Clock \<Rightarrow> real \<times> real \<Rightarrow> StateFile \<Rightarrow> AgentState \<times> StateFile \<times> event list" where
  "loadState clk u file =
     (case file of
        NoFile \<Rightarrow>
          (let newState = DEFAULT_STATE\<lparr>created_at := Some (getJSTTimestamp clk),
                                         today_max_posts := randomDailyMaxPosts u\<rparr>;
               saved = saveState clk newState
           in (fst saved, snd saved, [SaveState (fst saved)]))
      | Unreadable \<Rightarrow>
          (DEFAULT_STATE\<lparr>created_at := Some (getJSTTimestamp clk),
                          today_max_posts := randomDailyMaxPosts u\<rparr>, file, [])
      | Stored r \<Rightarrow> (monthRollover clk (migrate u (dayRollover clk u r)), file, []))"

text \<open>
  \<open>lowMoods[Math.floor(Math.random() * lowMoods.length)]\<close>, the draw being the argument;
  for a draw in [0,1) the index is 0, 1 or 2.
\<close>

definition lowMoods :: "mood list" where
  "lowMoods = [Tired, Frustrated, Melancholy]"

definition pickLowMood :: "real \<Rightarrow> mood" where
  "pickLowMood u = lowMoods ! nat \<lfloor>u * real (length lowMoods)\<rfloor>"

text \<open>
  \<open>updateStateAfterPost\<close>. The separator is U+0020 U+2192 U+0020, the ellipsis U+2026;
  \<open>text.length\<close> and \<open>text.slice(0, 20)\<close> count code units.
\<close>

definition updateStateAfterPost ::
  "Clock \<Rightarrow> real \<Rightarrow> AgentState \<Rightarrow> ustring \<Rightarrow> string \<Rightarrow> bool \<Rightarrow> AgentState" where
  "updateStateAfterPost clk u s t slot hasImage =
     (let now = dateString clk;
          time = timeString clk;
          newPost = \<lparr>p_text = t, p_slot = slot, p_timestamp = getJSTTimestamp clk,
                     p_hasImage = hasImage\<rparr>;
          s1 = s\<lparr>last_posts := take 7 (newPost # last_posts s),
                 today_slots_used := today_slots_used s @ [slot],
                 today_post_count := today_post_count s + 1,
                 month_total_posts := month_total_posts s + 1\<rparr>;
          s2 = (if hasImage
                then s1\<lparr>month_image_posts := month_image_posts s1 + 1,
                        last_image_date := Some now\<rparr>
                else s1);
          s3 = (if slot = ''goodnight'' then s2\<lparr>today_goodnight_posted := True\<rparr> else s2);
          s4 = (if slot = ''simple_goodnight''
                then s3\<lparr>today_simple_goodnight_posted := True\<rparr> else s3);
          s5 = (if slot = ''morning'' then s4\<lparr>today_morning_posted := True\<rparr> else s4);
          s6 = s5\<lparr>last_post_date := Some now, last_post_time := Some time,
                  last_post_timestamp_ms := Some (nowMs clk)\<rparr>;
          shortText = (if length t > 20 then take 20 t @ [0x2026] else t);
          s7 = s6\<lparr>today_narrative :=
                    today_narrative s6
                    @ (if today_narrative s6 \<noteq> [] then [0x20, 0x2192, 0x20] else [])
                    @ shortText\<rparr>;
          s8 = s7\<lparr>energy := max 10 (energy s7 - 10)\<rparr>
      in if energy s8 < 20 then s8\<lparr>mood := Tired\<rparr>
         else if energy s8 < 40 then s8\<lparr>mood := pickLowMood u\<rparr>
         else if slot = ''night_ero'' then s8\<lparr>mood := Lonely\<rparr>
         else s8)"

text \<open>
  \<open>minutesSinceLastPost\<close>: \<open>!state.last_post_timestamp_ms\<close> holds for \<open>null\<close> and for 0.
\<close>

definition minutesSinceLastPost :: "Clock \<Rightarrow> AgentState \<Rightarrow> real option" where
  "minutesSinceLastPost clk s =
     (case last_post_timestamp_ms s of
        None \<Rightarrow> None
      | Some ts \<Rightarrow> if ts = 0 then None else Some (real_of_int (nowMs clk - ts) / (1000 * 60)))"

definition incrementNgRetry :: "AgentState \<Rightarrow> AgentState" where
  "incrementNgRetry s = s\<lparr>ng_retry_count := ng_retry_count s + 1\<rparr>"

definition incrementFallbackUsed :: "AgentState \<Rightarrow> AgentState" where
  "incrementFallbackUsed s = s\<lparr>fallback_used_count := fallback_used_count s + 1\<rparr>"

definition getCurrentImageRatio :: "AgentState \<Rightarrow> real" where
  "getCurrentImageRatio s =
     (if month_total_posts s = 0 then 0
      else real_of_int (month_image_posts s) / real_of_int (month_total_posts s))"

definition shouldPostImage :: "real \<Rightarrow> AgentState \<Rightarrow> bool" where
  "shouldPostImage u s =
     (let TARGET_RATIO = 10 / 100;
          currentRatio = getCurrentImageRatio s
      in if month_total_posts s < 10 then u < TARGET_RATIO
         else if currentRatio < TARGET_RATIO - 2 / 100 then u < 3 / 10
         else if currentRatio \<ge> TARGET_RATIO then u < 2 / 100
         else u < TARGET_RATIO)"

section \<open>Hashtags\<close>

text \<open>
  The required hashtag is \<open>#\<close> followed by U+8EFD U+8CA8 U+7269. A shuffle
  \<open>[...xs].sort(() => Math.random() - 0.5)\<close> is a parameter: the order it returns.
  \<open>shuffled[0]\<close> of an empty array is \<open>undefined\<close>, which the template literal prints.
\<close>

definition REQUIRED_HASHTAG :: ustring where
  "REQUIRED_HASHTAG = [0x23, 0x8EFD, 0x8CA8, 0x7269]"

definition loadHashtags :: "Config \<Rightarrow> ustring list" where
  "loadHashtags cfg = loadLines (hashtags_file cfg)"

definition undefined_str :: ustring where
  "undefined_str = [0x75, 0x6E, 0x64, 0x65, 0x66, 0x69, 0x6E, 0x65, 0x64]"

definition getRandomHashtags ::
  "Config \<Rightarrow> real \<Rightarrow> (ustring list \<Rightarrow> ustring list) \<Rightarrow> ustring list" where
  "getRandomHashtags cfg u shuffle =
     (let hashtags = loadHashtags cfg;
          result = [REQUIRED_HASHTAG];
          others = filter (\<lambda>tag. tag \<noteq> [0x8EFD, 0x8CA8, 0x7269]) hashtags
      in if length others > 0 \<and> u < 5 / 10
         then result @ [0x23 # (case shuffle others of [] \<Rightarrow> undefined_str | x # xs \<Rightarrow> x)]
         else result)"

text \<open>\<open>hashtags.join(' ')\<close>.\<close>

fun join :: "ustring \<Rightarrow> ustring list \<Rightarrow> ustring" where
  "join sep [] = []"
| "join sep [x] = x"
| "join sep (x # y # ys) = x @ sep @ join sep (y # ys)"

definition appendHashtags ::
  "Config \<Rightarrow> real \<Rightarrow> (ustring list \<Rightarrow> ustring list) \<Rightarrow> ustring \<Rightarrow> int \<Rightarrow> ustring" where
  "appendHashtags cfg u shuffle tweet maxLength =
     (let hashtags = getRandomHashtags cfg u shuffle
      in if length hashtags = 0 then tweet
         else (let hashtagStr = [0x0A] @ join [0x20] hashtags;
                   combined = tweet @ hashtagStr
               in if int (length (codepoints combined)) \<le> maxLength then combined
                  else (let singleTag = [0x0A] @ hd hashtags;
                            withSingle = tweet @ singleTag
                        in if int (length (codepoints withSingle)) \<le> maxLength
                           then withSingle
                           else tweet)))"

section \<open>The fallback pool\<close>

definition loadFallbackTweets :: "Config \<Rightarrow> ustring list" where
  "loadFallbackTweets cfg = loadLines (fallback_tweets_file cfg)"

text \<open>
  \<open>slotKeywords[slot] || []\<close> is a lookup in an object literal. For its four own keys it
  gives the keyword array, written here as code units:
  delivery: U+914D U+9054, U+8377 U+7269, U+4E0D U+5728 U+7968, U+4EF6 U+6570;
  commute: U+5E30, U+7D42 U+308F U+308A, U+8FD4 U+5374;
  night_ero: U+591C, U+5BC2 U+3057 U+3044, U+7652;
  goodnight: U+304A U+3084 U+3059 U+307F, U+5BDD, U+660E U+65E5.
  For a name that \<open>Object.prototype\<close> defines it gives the inherited member, which is
  truthy: a function (with the number of its parameters as \<open>length\<close>), or for
  \<open>__proto__\<close> the prototype object, which has no \<open>length\<close>. For every other name it
  gives \<open>undefined\<close>, and \<open>|| []\<close> makes that the empty array.
\<close>

datatype keyword_lookup = KeywordList "ustring list" | InheritedFunction nat | PrototypeObject

definition objectPrototypeFunctions :: "(string \<times> nat) list" where
  "objectPrototypeFunctions =
     [(''constructor'', 1), (''hasOwnProperty'', 1), (''isPrototypeOf'', 1),
      (''propertyIsEnumerable'', 1), (''toLocaleString'', 0), (''toString'', 0),
      (''valueOf'', 0), (''__defineGetter__'', 2), (''__defineSetter__'', 2),
      (''__lookupGetter__'', 1), (''__lookupSetter__'', 1)]"

definition slotKeywords :: "string \<Rightarrow> keyword_lookup" where
  "slotKeywords slot =
     (if slot = ''delivery''
      then KeywordList
             [[0x914D, 0x9054], [0x8377, 0x7269], [0x4E0D, 0x5728, 0x7968], [0x4EF6, 0x6570]]
      else if slot = ''commute''
      then KeywordList [[0x5E30], [0x7D42, 0x308F, 0x308A], [0x8FD4, 0x5374]]
      else if slot = ''night_ero''
      then KeywordList [[0x591C], [0x5BC2, 0x3057, 0x3044], [0x7652]]
      else if slot = ''goodnight''
      then KeywordList [[0x304A, 0x3084, 0x3059, 0x307F], [0x5BDD], [0x660E, 0x65E5]]
      else (case map_of objectPrototypeFunctions slot of
              Some n \<Rightarrow> InheritedFunction n
            | None \<Rightarrow> if slot = ''__proto__'' then PrototypeObject else KeywordList []))"

text \<open>An exception that nothing in the module catches.\<close>

datatype js_error = TypeError

text \<open>
  The value of \<open>candidates\<close> when the shuffle is reached. \<open>keywords.length > 0\<close> is false
  for the empty array, for a function without parameters and for the prototype object
  (\<open>undefined > 0\<close>); for a function with parameters it is true and \<open>keywords.some\<close>, which
  a function does not have, throws a \<open>TypeError\<close>.
\<close>

definition fallbackCandidates :: "keyword_lookup \<Rightarrow> ustring list \<Rightarrow> js_error + ustring list" where
  "fallbackCandidates keywords tweets =
     (case keywords of
        KeywordList ks \<Rightarrow>
          if length ks > 0
          then (let filtered = filter (\<lambda>tweet. list_ex (\<lambda>kw. includes_str tweet kw) ks) tweets
                in if length filtered > 0 then Inr filtered else Inr tweets)
          else Inr tweets
      | InheritedFunction n \<Rightarrow> if n > 0 then Inl TypeError else Inr tweets
      | PrototypeObject \<Rightarrow> Inr tweets)"

text \<open>
  \<open>getFallbackTweetForSlot\<close>: the first shuffled candidate that passes the similarity
  check at 0.5, else \<open>shuffled[0] || null\<close>, which is \<open>null\<close> for an empty array and for
  an empty first string. \<open>Inl\<close> is the exception the keyword filter throws.
\<close>

definition getFallbackTweetForSlot ::
  "Config \<Rightarrow> (ustring list \<Rightarrow> ustring list) \<Rightarrow> string \<Rightarrow> PostRecord list
     \<Rightarrow> js_error + ustring option" where
  "getFallbackTweetForSlot cfg shuffle slot recentPosts =
     (let tweets = loadFallbackTweets cfg
      in if length tweets = 0 then Inr None
         else (case fallbackCandidates (slotKeywords slot) tweets of
                 Inl e \<Rightarrow> Inl e
               | Inr candidates \<Rightarrow>
                   (let shuffled = shuffle candidates
                    in case find (\<lambda>candidate.
                                    sim_valid (checkSimilarity candidate recentPosts (5 / 10)))
                              shuffled of
                         Some candidate \<Rightarrow> Inr (Some candidate)
                       | None \<Rightarrow>
                           (case shuffled of
                              [] \<Rightarrow> Inr None
                            | x # xs \<Rightarrow> if x = [] then Inr None else Inr (Some x)))))"

section \<open>Slot selection (prompt.ts)\<close>

text \<open>
  The weighted draw: subtract each weight in turn until the value is not positive. The
  weights and the draw are exact reals here; the source adds and subtracts doubles, so on a
  draw that falls on the boundary between two candidates the source may pick the
  neighbour of the one picked here. No property below depends on which candidate the
  weighted draw picks.
\<close>

fun pickWeighted :: "(string \<times> real) list \<Rightarrow> real \<Rightarrow> string option" where
  "pickWeighted [] random = None"
| "pickWeighted (c # cs) random =
     (if random - snd c \<le> 0 then Some (fst c) else pickWeighted cs (random - snd c))"

definition slotCandidates :: "Config \<Rightarrow> int \<Rightarrow> AgentState \<Rightarrow> (string \<times> real) list" where
  "slotCandidates cfg hour s =
     map (\<lambda>e. (fst e, sc_weight (snd e)))
       (filter (\<lambda>e. \<not> (fst e = ''goodnight'' \<and> today_goodnight_posted s)
                   \<and> \<not> (fst e = ''simple_goodnight'' \<and> today_simple_goodnight_posted s)
                   \<and> \<not> (fst e = ''morning'' \<and> today_morning_posted s)
                   \<and> hour \<in> set (sc_hours (snd e)))
          (slots_yaml cfg))"

text \<open>
  \<open>determineSlot\<close>; its two draws are the coin between the two night-closing slots and the
  weighted draw.
\<close>

definition determineSlot :: "Config \<Rightarrow> real \<times> real \<Rightarrow> int \<Rightarrow> AgentState \<Rightarrow> string" where
  "determineSlot cfg u hour s =
     (if \<not> today_morning_posted s \<and> (hour = 6 \<or> hour = 7) then ''morning''
      else if (\<not> today_simple_goodnight_posted s \<and> \<not> today_goodnight_posted s
               \<and> (hour = 23 \<or> hour = 0)) \<and> fst u < 5 / 10
      then ''simple_goodnight''
      else if \<not> today_goodnight_posted s \<and> \<not> today_simple_goodnight_posted s
              \<and> (hour = 23 \<or> hour = 0)
      then ''goodnight''
      else (let candidates = slotCandidates cfg hour s
            in if length candidates = 0 then ''delivery''
               else (let totalWeight = foldl (\<lambda>sum c. sum + snd c) 0 candidates
                     in case pickWeighted candidates (snd u * totalWeight) of
                          Some slot \<Rightarrow> slot
                        | None \<Rightarrow> fst (hd candidates))))"

section \<open>A run (agent/run.ts)\<close>

definition MAX_GENERATION_RETRIES :: nat where
  "MAX_GENERATION_RETRIES = 2"

definition calculateSkipProbability :: "Clock \<Rightarrow> AgentState \<Rightarrow> real" where
  "calculateSkipProbability clk s =
     (case minutesSinceLastPost clk s of
        None \<Rightarrow> 5 / 100
      | Some minutes \<Rightarrow>
          if minutes < 60 then 3 / 100
          else if minutes < 120 then 8 / 100
          else if today_skip_count s < 2 then 20 / 100
          else 5 / 100)"

definition skipExemptSlots :: "string list" where
  "skipExemptSlots = [''goodnight'', ''simple_goodnight'', ''morning'']"

definition noImageSlots :: "string list" where
  "noImageSlots = [''morning'', ''simple_goodnight'']"

record GeneratedTweet =
  g_tweet :: ustring
  g_mood :: mood

text \<open>
  Everything a run reads from outside: the configuration, the state file, the clock at each
  stage, every draw of \<open>Math.random()\<close> that decides something, and the answers of the
  external capabilities. \<open>generate n\<close> is what attempt \<open>n\<close> of the loop gets inside its
  \<open>try\<close>: a tweet with a mood, or \<open>None\<close> when building the prompt or the generator throws.
  \<open>upload\<close> is the media id of \<open>uploadMediaChunked\<close>, \<open>None\<close> when it throws;
  \<open>createSucceeds\<close> tells whether the create call returns or throws. The prompt text and the
  weather only feed the generator and are not part of the model; configuration files can be
  read and the state file can be written.
\<close>

record Env =
  config :: Config
  stateFile :: StateFile
  clockLoad :: Clock
  maxPostsDraws :: "real \<times> real"
  clockRun :: Clock
  slotDraws :: "real \<times> real"
  skipDraw :: real
  imageDraw :: real
  selectedImage :: "ustring option"
  openAIAvailable :: bool
  generate :: "nat \<Rightarrow> GeneratedTweet option"
  shuffleFallback :: "ustring list \<Rightarrow> ustring list"
  hashtagDraw :: real
  shuffleHashtags :: "ustring list \<Rightarrow> ustring list"
  xApiAvailable :: bool
  upload :: "ustring option"
  createSucceeds :: bool
  clockPost :: Clock
  moodDraw :: real
  clockSave :: Clock

text \<open>
  The \<open>return\<close> or \<open>process.exit\<close> at which a run ends. \<open>FatalError\<close> is
  \<open>main().catch\<close>: an exception left \<open>main\<close>, and the process exits with 1 without
  saving.
\<close>

datatype path =
    QuotaReached | Skipped | NoFallback | DryRun | Posted | PublishFailed | FatalError

record Outcome =
  o_path :: path
  o_state :: AgentState
  o_file :: StateFile
  o_exit :: int
  o_events :: "event list"

text \<open>A string or \<open>null\<close> used as a condition: false for \<open>null\<close> and for the empty string.\<close>

definition truthy :: "ustring option \<Rightarrow> bool" where
  "truthy x = (case x of None \<Rightarrow> False | Some t \<Rightarrow> t \<noteq> [])"

text \<open>
  The generation loop over the attempts still to run: the state, \<open>tweetText\<close> and the
  generator calls made. A thrown attempt goes on to the next one; an invalid tweet counts an
  NG retry; a valid one sets the mood and leaves the loop.
\<close>

fun generationLoop ::
  "Env \<Rightarrow> string \<Rightarrow> nat list \<Rightarrow> AgentState \<Rightarrow> AgentState \<times> ustring option \<times> event list" where
  "generationLoop env slot [] s = (s, None, [])"
| "generationLoop env slot (attempt # rest) s =
     (case generate env attempt of
        None \<Rightarrow>
          (let r = generationLoop env slot rest s
           in (fst r, fst (snd r), GenerateTweet attempt # snd (snd r)))
      | Some result \<Rightarrow>
          if valid (validateTweet (config env) (g_tweet result) (last_posts s) slot)
          then (s\<lparr>mood := g_mood result\<rparr>, Some (g_tweet result), [GenerateTweet attempt])
          else (let r = generationLoop env slot rest (incrementNgRetry s)
                in (fst r, fst (snd r), GenerateTweet attempt # snd (snd r))))"

text \<open>
  The \<open>try\<close> block that publishes, and its \<open>catch\<close>: \<open>saveState\<close> and \<open>process.exit(1)\<close>.
\<close>

definition publish ::
  "Env \<Rightarrow> AgentState \<Rightarrow> StateFile \<Rightarrow> event list \<Rightarrow> string \<Rightarrow> ustring \<Rightarrow> ustring
     \<Rightarrow> ustring option \<Rightarrow> Outcome" where
  "publish env s file evs slot tweetText tweetWithHashtags imagePath =
     (let failed = (\<lambda>evs'. let saved = saveState (clockSave env) s
                           in \<lparr>o_path = PublishFailed, o_state = fst saved, o_file = snd saved,
                               o_exit = 1, o_events = evs' @ [SaveState (fst saved)]\<rparr>)
      in if truthy imagePath \<and> upload env = None
         then failed (evs @ [UploadMedia (the imagePath)])
         else (let mediaId = (if truthy imagePath then upload env else None);
                   evs1 = evs @ (if truthy imagePath then [UploadMedia (the imagePath)] else []);
                   evs2 = evs1 @ [if truthy mediaId
                                  then CreateTweetWithMedia tweetWithHashtags (the mediaId)
                                  else CreateTweet tweetWithHashtags]
               in if \<not> createSucceeds env then failed evs2
                  else (let s' = updateStateAfterPost (clockPost env) (moodDraw env) s
                                   tweetText slot (truthy mediaId);
                            saved = saveState (clockSave env) s'
                        in \<lparr>o_path = Posted, o_state = fst saved, o_file = snd saved,
                            o_exit = 0, o_events = evs2 @ [SaveState (fst saved)]\<rparr>)))"

text \<open>From the image decision to the end of the run.\<close>

definition generateAndPost :: "Env \<Rightarrow> AgentState \<Rightarrow> StateFile \<Rightarrow> event list \<Rightarrow> string \<Rightarrow> Outcome" where
  "generateAndPost env s0 file evs0 slot =
     (let shouldImage = (if slot \<in> set noImageSlots then False
                         else shouldPostImage (imageDraw env) s0);
          imagePath = (if shouldImage then selectedImage env else None);
          gen = (if openAIAvailable env
                 then generationLoop env slot [0 ..< Suc MAX_GENERATION_RETRIES] s0
                 else (s0, None, []));
          s1 = fst gen;
          evs1 = evs0 @ snd (snd gen)
      in case (if \<not> truthy (fst (snd gen))
               then getFallbackTweetForSlot (config env) (shuffleFallback env) slot
                      (last_posts s1)
               else Inr (fst (snd gen))) of
           Inl e \<Rightarrow>
             \<lparr>o_path = FatalError, o_state = s1, o_file = file, o_exit = 1, o_events = evs1\<rparr>
         | Inr tweetText \<Rightarrow>
             if \<not> truthy (fst (snd gen)) \<and> \<not> truthy tweetText
             then (let saved = saveState (clockSave env) s1
                   in \<lparr>o_path = NoFallback, o_state = fst saved, o_file = snd saved,
                       o_exit = 0, o_events = evs1 @ [SaveState (fst saved)]\<rparr>)
             else (let s2 = (if \<not> truthy (fst (snd gen)) then incrementFallbackUsed s1
                             else s1);
                       tweetWithHashtags = appendHashtags (config env) (hashtagDraw env)
                                             (shuffleHashtags env) (the tweetText) 140
                   in if \<not> xApiAvailable env
                      then \<lparr>o_path = DryRun, o_state = s2, o_file = file, o_exit = 0,
                            o_events = evs1\<rparr>
                      else publish env s2 file evs1 slot (the tweetText) tweetWithHashtags
                             imagePath))"

text \<open>\<open>main\<close>: the outcome of one run.\<close>

definition main :: "Env \<Rightarrow> Outcome" where
  "main env =
     (let loaded = loadState (clockLoad env) (maxPostsDraws env) (stateFile env);
          s = fst loaded;
          file = fst (snd loaded);
          evs = snd (snd loaded)
      in if today_post_count s \<ge> today_max_posts s
         then \<lparr>o_path = QuotaReached, o_state = s, o_file = file, o_exit = 0, o_events = evs\<rparr>
         else (let hour = hourJST (clockRun env);
                   slot = determineSlot (config env) (slotDraws env) hour s
               in if slot \<notin> set skipExemptSlots
                     \<and> skipDraw env < calculateSkipProbability (clockRun env) s
                  then (let s' = s\<lparr>today_skipped := True,
                                    today_skip_count := today_skip_count s + 1\<rparr>;
                            saved = saveState (clockSave env) s'
                        in \<lparr>o_path = Skipped, o_state = fst saved, o_file = snd saved,
                            o_exit = 0, o_events = evs @ [SaveState (fst saved)]\<rparr>)
                  else generateAndPost env s file evs slot))"

section \<open>Per-day fields and sample inputs\<close>

text \<open>The per-day fields of a state other than \<open>today_max_posts\<close>.\<close>

definition perDayFields ::
  "AgentState \<Rightarrow> int \<times> string list \<times> bool \<times> bool \<times> bool \<times> int \<times> ustring" where
  "perDayFields s =
     (today_post_count s, today_slots_used s, today_goodnight_posted s,
      today_simple_goodnight_posted s, today_morning_posted s, today_skip_count s,
      today_narrative s)"

text \<open>A draw of \<open>Math.random()\<close> lies in [0,1).\<close>

definition validDraw :: "real \<Rightarrow> bool" where
  "validDraw u \<longleftrightarrow> 0 \<le> u \<and> u < 1"

text \<open>
  Sample inputs: the clock at 2025-01-02 12:00:00 and a state file whose last post was on
  2025-01-01, with energy 30, three posts and one skip counted.
\<close>

definition sampleClock :: Clock where
  "sampleClock =
     \<lparr>dateString = [0x32, 0x30, 0x32, 0x35, 0x2D, 0x30, 0x31, 0x2D, 0x30, 0x32],
      timeString = [0x31, 0x32, 0x3A, 0x30, 0x30, 0x3A, 0x30, 0x30],
      hourJST = 12, nowMs = 1735786800000\<rparr>"

definition sampleStored :: StoredState where
  "sampleStored =
     \<lparr>r_mood = Happy, r_energy = 30, r_last_posts = [],
      r_today_slots_used = [''delivery'', ''commute'', ''delivery''],
      r_today_post_count = 3, r_today_goodnight_posted = True,
      r_today_simple_goodnight_posted = Some False, r_today_morning_posted = Some True,
      r_today_max_posts = Some 9, r_today_narrative = Some [0x61, 0x62],
      r_month_total_posts = 5, r_month_image_posts = 0,
      r_month_string = Some [0x32, 0x30, 0x32, 0x35, 0x2D, 0x30, 0x31],
      r_last_image_date = None,
      r_last_post_date = Some [0x32, 0x30, 0x32, 0x35, 0x2D, 0x30, 0x31, 0x2D, 0x30, 0x31],
      r_last_post_time = Some [0x31, 0x32, 0x3A, 0x30, 0x30, 0x3A, 0x30, 0x30],
      r_last_post_timestamp_ms = Some (Some 1735700400000),
      r_today_skipped = True, r_today_skip_count = Some 1,
      r_ng_retry_count = 4, r_fallback_used_count = 2,
      r_created_at = None, r_updated_at = None\<rparr>"

text \<open>
  A sample configuration. The logistics words are U+914D U+9054 and U+8377 U+7269; the
  fallback file holds a comment line, the line U+914D U+9054 \<open>ab\<close> with blanks around it
  and the line \<open>cd\<close>; the hashtag file holds U+8EFD U+8CA8 U+7269 and \<open>ab\<close>. One emoji
  (U+1F600, a surrogate pair) is known, and \<open>toLowerCase\<close> maps the ASCII capitals.
\<close>

definition sampleConfig :: Config where
  "sampleConfig =
     \<lparr>logistics_words_file = Some [0x914D, 0x9054, 0x0A, 0x8377, 0x7269],
      forbidden_file = None,
      fallback_tweets_file =
        Some [0x23, 0x78, 0x0A, 0x20, 0x914D, 0x9054, 0x20, 0x61, 0x62, 0x20, 0x0A, 0x63, 0x64],
      hashtags_file = Some [0x8EFD, 0x8CA8, 0x7269, 0x0A, 0x61, 0x62],
      slots_yaml =
        [(''delivery'', \<lparr>sc_hours = [9, 10, 11, 12, 14, 15, 16, 17], sc_weight = 3\<rparr>),
         (''casual'', \<lparr>sc_hours = [12, 13], sc_weight = 1\<rparr>)],
      isEmoji = (\<lambda>c. c = [0xD83D, 0xDE00]),
      toLowerCase = map (\<lambda>c. if 0x41 \<le> c \<and> c \<le> 0x5A then c + 0x20 else c)\<rparr>"

text \<open>The state a run works on: what \<open>loadState\<close> returns to \<open>main\<close>.\<close>

definition loadedState :: "Env \<Rightarrow> AgentState" where
  "loadedState env = fst (loadState (clockLoad env) (maxPostsDraws env) (stateFile env))"









text \<open>The keywords the fallback filter works with, when the lookup gave an array.\<close>

definition keywordList :: "keyword_lookup \<Rightarrow> ustring list" where
  "keywordList k = (case k of KeywordList ks \<Rightarrow> ks | InheritedFunction n \<Rightarrow> [] | PrototypeObject \<Rightarrow> [])"

text \<open>
  A sample run at noon on 2025-01-02 over the sample file. The generator first returns
  \<open>ab\<close>, which has no logistics word, then U+914D U+9054 \<open>x\<close> with the mood excited; no
  image is drawn; the publishing client is available and its create call throws.
\<close>

definition sampleEnv :: Env where
  "sampleEnv =
     \<lparr>config = sampleConfig, stateFile = Stored sampleStored, clockLoad = sampleClock,
      maxPostsDraws = (1 / 2, 0), clockRun = sampleClock, slotDraws = (0, 0),
      skipDraw = 1 / 2, imageDraw = 1 / 2, selectedImage = None, openAIAvailable = True,
      generate = (\<lambda>attempt. if attempt = 0 then Some \<lparr>g_tweet = [0x61, 0x62], g_mood = Happy\<rparr>
                             else Some \<lparr>g_tweet = [0x914D, 0x9054, 0x78], g_mood = Excited\<rparr>),
      shuffleFallback = rev, hashtagDraw = 0, shuffleHashtags = rev, xApiAvailable = True,
      upload = None, createSucceeds = False, clockPost = sampleClock, moodDraw = 0,
      clockSave = sampleClock\<rparr>"

section \<open>Sets as lists\<close>

lemma set_foldl_setAdd: "set (foldl setAdd acc xs) = set acc \<union> set xs"
  by (induction xs arbitrary: acc) (auto simp: setAdd_def)

lemma distinct_foldl_setAdd: "distinct acc \<Longrightarrow> distinct (foldl setAdd acc xs)"
  by (induction xs arbitrary: acc) (auto simp: setAdd_def)

lemma length_newSet: "length (newSet xs) = card (set xs)"
proof -
  have "distinct (newSet xs)"
    unfolding newSet_def by (rule distinct_foldl_setAdd) simp
  moreover have "set (newSet xs) = set xs"
    unfolding newSet_def by (simp add: set_foldl_setAdd)
  ultimately show ?thesis
    by (metis distinct_card)
qed

lemma newSet_eq_Nil: "newSet xs = [] \<longleftrightarrow> xs = []"
  using length_newSet [of xs] by (cases xs) (auto simp: card_eq_0_iff)

lemma distinct_getBigrams: "distinct (getBigrams t)"
  unfolding getBigrams_def by (rule distinct_foldl_setAdd) simp

lemma jaccardSimilarity_card:
  "jaccardSimilarity a b =
     (if set a \<union> set b = {} then 0
      else real (card (set a \<inter> set b)) / real (card (set a \<union> set b)))"
proof -
  have "{x \<in> set a. x \<in> set b} = set a \<inter> set b"
    by auto
  then show ?thesis
    by (simp add: jaccardSimilarity_def Let_def length_newSet newSet_eq_Nil)
qed

lemma jaccardSimilarity_bounds: "0 \<le> jaccardSimilarity a b \<and> jaccardSimilarity a b \<le> 1"
proof (cases "set a \<union> set b = {}")
  case True
  then show ?thesis by (simp add: jaccardSimilarity_card)
next
  case False
  have "card (set a \<inter> set b) \<le> card (set a \<union> set b)"
    by (rule card_mono) auto
  moreover have "0 < card (set a \<union> set b)"
    using False by (simp add: card_gt_0_iff)
  ultimately show ?thesis
    using False by (simp add: jaccardSimilarity_card)
qed

lemma jaccardSimilarity_self: "jaccardSimilarity a a = (if a = [] then 0 else 1)"
  by (simp add: jaccardSimilarity_card card_gt_0_iff)

lemma similarity_fold_bounds:
  "0 \<le> fst acc \<Longrightarrow> fst acc \<le> 1 \<Longrightarrow>
   0 \<le> fst (foldl (similarityStep nb) acc posts) \<and> fst (foldl (similarityStep nb) acc posts) \<le> 1"
proof (induction posts arbitrary: acc)
  case Nil
  then show ?case by simp
next
  case (Cons p ps)
  have "0 \<le> fst (similarityStep nb acc p) \<and> fst (similarityStep nb acc p) \<le> 1"
    using Cons.prems jaccardSimilarity_bounds [of nb "getBigrams (p_text p)"]
    by (simp add: similarityStep_def Let_def)
  then show ?case
    using Cons.IH [of "similarityStep nb acc p"] by simp
qed

lemma checkSimilarity_bounds:
  "0 \<le> maxSimilarity (checkSimilarity t posts thr) \<and> maxSimilarity (checkSimilarity t posts thr) \<le> 1"
  using similarity_fold_bounds [of "(0, None)" "getBigrams t" posts]
  by (simp add: checkSimilarity_def Let_def)

lemma adjacentPairs_eq_Nil: "adjacentPairs cs = [] \<longleftrightarrow> length cs < 2"
  by (cases cs rule: adjacentPairs.cases) simp_all

lemma getBigrams_eq_Nil:
  "getBigrams t = [] \<longleftrightarrow> length (codepoints (filter (\<lambda>c. \<not> isWhitespace c) t)) < 2"
  using newSet_eq_Nil [of "adjacentPairs (codepoints (filter (\<lambda>c. \<not> isWhitespace c) t))"]
  by (simp add: getBigrams_def newSet_def adjacentPairs_eq_Nil)

lemma pickLowMood_in_lowMoods: "validDraw u \<Longrightarrow> pickLowMood u \<in> set lowMoods"
proof -
  assume "validDraw u"
  then have "0 \<le> u * 3" "u * 3 < 3"
    by (simp_all add: validDraw_def)
  then have bounds: "0 \<le> \<lfloor>u * 3\<rfloor>" "\<lfloor>u * 3\<rfloor> < 3"
    by (simp_all add: floor_less_iff)
  have len: "length lowMoods = 3"
    by (simp add: lowMoods_def)
  have "nat \<lfloor>u * 3\<rfloor> < 3"
    using bounds by arith
  then have "nat \<lfloor>u * real (length lowMoods)\<rfloor> < length lowMoods"
    unfolding len by simp
  then show ?thesis
    unfolding pickLowMood_def by (rule nth_mem)
qed

section \<open>Claims\<close>

subsection \<open>C4: bigram similarity\<close>

text \<open>
  C4 claims that the similarity of a text against itself equals 1 for every text. The
  one-letter text \<open>a\<close> has no bigram, the union of its two bigram sets is empty, and
  \<open>jaccardSimilarity\<close> returns 0 there.
\<close>

theorem self_similarity_counterexample:
  "jaccardSimilarity (getBigrams [0x61]) (getBigrams [0x61]) = 0
   \<and> jaccardSimilarity (getBigrams [0x61]) (getBigrams [0x61]) \<noteq> 1"
  by (simp add: jaccardSimilarity_def getBigrams_def newSet_def isWhitespace_def)

text \<open>
  C4, amended. For every pair of texts the bigram Jaccard similarity lies in [0,1], and so
  does the maximum that \<open>checkSimilarity\<close> reports against any history; the similarity of
  a text against itself is 1 when the text has at least two code points that are not
  whitespace, and 0 when it has fewer (its bigram set is empty); \<open>checkSimilarity\<close> on an
  empty history is valid with \<open>maxSimilarity\<close> 0 and no most similar text.
\<close>

theorem bigram_similarity_bounds:
  "0 \<le> jaccardSimilarity (getBigrams a) (getBigrams b)
   \<and> jaccardSimilarity (getBigrams a) (getBigrams b) \<le> 1
   \<and> 0 \<le> maxSimilarity (checkSimilarity a posts thr)
   \<and> maxSimilarity (checkSimilarity a posts thr) \<le> 1
   \<and> jaccardSimilarity (getBigrams a) (getBigrams a) =
       (if length (codepoints (filter (\<lambda>c. \<not> isWhitespace c) a)) < 2 then 0 else 1)
   \<and> checkSimilarity a [] thr = \<lparr>sim_valid = True, maxSimilarity = 0, mostSimilar = None\<rparr>"
proof -
  have self: "jaccardSimilarity (getBigrams a) (getBigrams a) =
      (if length (codepoints (filter (\<lambda>c. \<not> isWhitespace c) a)) < 2 then 0 else 1)"
    by (simp add: jaccardSimilarity_self getBigrams_eq_Nil)
  have empty: "checkSimilarity a [] thr = \<lparr>sim_valid = True, maxSimilarity = 0, mostSimilar = None\<rparr>"
    by (simp add: checkSimilarity_def)
  show ?thesis
    using jaccardSimilarity_bounds [of "getBigrams a" "getBigrams b"]
      checkSimilarity_bounds [of a posts thr] self empty
    by blast
qed

text \<open>
  The texts \<open>abc\<close> and \<open>ab d\<close> share the bigram \<open>ab\<close> out of three: similarity 1/3.
\<close>

theorem bigram_similarity_bounds_witness:
  "jaccardSimilarity (getBigrams [0x61, 0x62, 0x63]) (getBigrams [0x61, 0x62, 0x20, 0x64]) = 1 / 3
   \<and> jaccardSimilarity (getBigrams [0x61, 0x62, 0x63]) (getBigrams [0x61, 0x62, 0x63]) = 1
   \<and> 0 \<le> maxSimilarity (checkSimilarity [0x61, 0x62, 0x63]
            [\<lparr>p_text = [0x61, 0x62, 0x20, 0x64], p_slot = ''delivery'', p_timestamp = [],
              p_hasImage = False\<rparr>] (6 / 10))
   \<and> checkSimilarity [0x61, 0x62, 0x63] [] (6 / 10)
       = \<lparr>sim_valid = True, maxSimilarity = 0, mostSimilar = None\<rparr>"
proof -
  have third: "jaccardSimilarity (getBigrams [0x61, 0x62, 0x63]) (getBigrams [0x61, 0x62, 0x20, 0x64]) = 1 / 3"
    by (simp add: jaccardSimilarity_def getBigrams_def newSet_def setAdd_def isWhitespace_def
        isHighSurrogate_def isLowSurrogate_def)
  have two: "\<not> length (codepoints (filter (\<lambda>c. \<not> isWhitespace c) [0x61, 0x62, 0x63])) < 2"
    by (simp add: isWhitespace_def isHighSurrogate_def isLowSurrogate_def)
  show ?thesis
    using third two
      bigram_similarity_bounds [of "[0x61, 0x62, 0x63]" "[0x61, 0x62, 0x20, 0x64]"
        "[\<lparr>p_text = [0x61, 0x62, 0x20, 0x64], p_slot = ''delivery'', p_timestamp = [],
           p_hasImage = False\<rparr>]" "6 / 10"]
    by simp
qed

subsection \<open>C6: day rollover\<close>

lemma dayRollover_reset:
  assumes "\<not> isSameJSTDay clk (r_last_post_date r)"
  shows "dayRollover clk u r =
           r\<lparr>r_today_slots_used := [], r_today_post_count := 0,
              r_today_goodnight_posted := False,
              r_today_simple_goodnight_posted := Some False,
              r_today_morning_posted := Some False, r_today_skipped := False,
              r_today_skip_count := Some 0,
              r_today_max_posts := Some (randomDailyMaxPosts u),
              r_today_narrative := Some [], r_energy := 80\<rparr>"
  using assms by (simp add: dayRollover_def)

lemma dayRollover_same:
  assumes "isSameJSTDay clk (r_last_post_date r)"
  shows "dayRollover clk u r = r"
  using assms by (simp add: dayRollover_def)

lemma loadState_Stored:
  "fst (loadState clk u (Stored r)) = monthRollover clk (migrate u (dayRollover clk u r))"
  by (simp add: loadState_def)

lemma monthRollover_per_day:
  "today_post_count (monthRollover clk s) = today_post_count s"
  "today_slots_used (monthRollover clk s) = today_slots_used s"
  "today_morning_posted (monthRollover clk s) = today_morning_posted s"
  "today_goodnight_posted (monthRollover clk s) = today_goodnight_posted s"
  "today_simple_goodnight_posted (monthRollover clk s) = today_simple_goodnight_posted s"
  "today_skip_count (monthRollover clk s) = today_skip_count s"
  "today_narrative (monthRollover clk s) = today_narrative s"
  by (simp_all add: monthRollover_def Let_def)

lemma perDayFields_monthRollover: "perDayFields (monthRollover clk s) = perDayFields s"
  by (simp add: monthRollover_def perDayFields_def Let_def)

lemma today_max_posts_monthRollover: "today_max_posts (monthRollover clk s) = today_max_posts s"
  by (simp add: monthRollover_def Let_def)

lemma energy_monthRollover: "energy (monthRollover clk s) = energy s"
  by (simp add: monthRollover_def Let_def)

lemma today_skipped_monthRollover: "today_skipped (monthRollover clk s) = today_skipped s"
  by (simp add: monthRollover_def Let_def)

text \<open>
  C6. When the stored \<open>last_post_date\<close> is not the current civil day, \<open>loadState\<close> returns
  a state with \<open>today_post_count\<close> 0, no slot used, the three exclusivity flags false,
  \<open>today_skipped\<close> false, \<open>today_skip_count\<close> 0, an empty narrative and energy 80,
  whatever the stored values were.
\<close>

theorem loadState_day_rollover:
  assumes "\<not> isSameJSTDay clk (r_last_post_date r)"
  shows "today_post_count (fst (loadState clk u (Stored r))) = 0
       \<and> today_slots_used (fst (loadState clk u (Stored r))) = []
       \<and> \<not> today_morning_posted (fst (loadState clk u (Stored r)))
       \<and> \<not> today_goodnight_posted (fst (loadState clk u (Stored r)))
       \<and> \<not> today_simple_goodnight_posted (fst (loadState clk u (Stored r)))
       \<and> \<not> today_skipped (fst (loadState clk u (Stored r)))
       \<and> today_skip_count (fst (loadState clk u (Stored r))) = 0
       \<and> today_narrative (fst (loadState clk u (Stored r))) = []
       \<and> energy (fst (loadState clk u (Stored r))) = 80"
proof -
  have per: "perDayFields (migrate u (dayRollover clk u r)) = (0, [], False, False, False, 0, [])"
    by (simp add: dayRollover_reset [OF assms] migrate_def perDayFields_def)
  have en: "energy (migrate u (dayRollover clk u r)) = 80"
    by (simp add: dayRollover_reset [OF assms] migrate_def)
  have sk: "\<not> today_skipped (migrate u (dayRollover clk u r))"
    by (simp add: dayRollover_reset [OF assms] migrate_def)
  show ?thesis
    using per en sk
    by (simp add: loadState_Stored monthRollover_per_day energy_monthRollover
        today_skipped_monthRollover perDayFields_def)
qed

theorem loadState_day_rollover_witness:
  "\<not> isSameJSTDay sampleClock (r_last_post_date sampleStored)
   \<and> r_energy sampleStored = 30 \<and> r_today_post_count sampleStored = 3
   \<and> today_post_count (fst (loadState sampleClock (1 / 2, 0) (Stored sampleStored))) = 0
   \<and> today_slots_used (fst (loadState sampleClock (1 / 2, 0) (Stored sampleStored))) = []
   \<and> today_skip_count (fst (loadState sampleClock (1 / 2, 0) (Stored sampleStored))) = 0
   \<and> energy (fst (loadState sampleClock (1 / 2, 0) (Stored sampleStored))) = 80"
proof -
  have h: "\<not> isSameJSTDay sampleClock (r_last_post_date sampleStored)"
    by (simp add: isSameJSTDay_def sampleClock_def sampleStored_def)
  show ?thesis
    using h loadState_day_rollover [OF h, of "(1 / 2, 0)"]
    by (simp add: sampleStored_def)
qed

subsection \<open>C7: loading twice\<close>

text \<open>
  C7 claims that two loads in the same civil day with no post in between agree on
  \<open>today_max_posts\<close> as well. \<open>loadState\<close> writes the file only when there was none, so
  with a last post on 2025-01-01 both loads on 2025-01-02 take the rollover branch and each
  re-rolls \<open>today_max_posts\<close> from its own draws: 13 for the draws (1/2, 0) and 15 for
  (1/2, 9/10).
\<close>

theorem load_twice_max_posts_counterexample:
  "today_max_posts (fst (loadState sampleClock (1 / 2, 0) (Stored sampleStored))) = 13
   \<and> today_max_posts (fst (loadState sampleClock (1 / 2, 9 / 10)
        (fst (snd (loadState sampleClock (1 / 2, 0) (Stored sampleStored)))))) = 15"
  by (simp add: loadState_def today_max_posts_monthRollover dayRollover_def migrate_def
      isSameJSTDay_def sampleClock_def sampleStored_def randomDailyMaxPosts_def)

lemma perDayFields_migrate_rollover:
  "perDayFields (migrate u (dayRollover clk u r)) =
     (if isSameJSTDay clk (r_last_post_date r)
      then (r_today_post_count r, r_today_slots_used r, r_today_goodnight_posted r,
            (case r_today_simple_goodnight_posted r of None \<Rightarrow> False | Some b \<Rightarrow> b),
            (case r_today_morning_posted r of None \<Rightarrow> False | Some b \<Rightarrow> b),
            (case r_today_skip_count r of None \<Rightarrow> 0 | Some n \<Rightarrow> n),
            (case r_today_narrative r of None \<Rightarrow> [] | Some t \<Rightarrow> t))
      else (0, [], False, False, False, 0, []))"
  by (simp add: dayRollover_def migrate_def perDayFields_def)

lemma today_max_posts_migrate_rollover:
  "today_max_posts (migrate u (dayRollover clk u r)) =
     (if isSameJSTDay clk (r_last_post_date r)
      then (case r_today_max_posts r of None \<Rightarrow> randomDailyMaxPosts u | Some n \<Rightarrow> n)
      else randomDailyMaxPosts u)"
  by (simp add: dayRollover_def migrate_def)

lemma isSameJSTDay_cong:
  "dateString clk1 = dateString clk2 \<Longrightarrow> isSameJSTDay clk1 d = isSameJSTDay clk2 d"
  by (simp add: isSameJSTDay_def split: option.splits)

lemma perDayFields_load_NoFile:
  "perDayFields (fst (loadState clk u NoFile)) = (0, [], False, False, False, 0, [])"
  by (simp add: loadState_def saveState_def Let_def DEFAULT_STATE_def perDayFields_def)

lemma perDayFields_load_Unreadable:
  "perDayFields (fst (loadState clk u Unreadable)) = (0, [], False, False, False, 0, [])"
  by (simp add: loadState_def DEFAULT_STATE_def perDayFields_def)

lemma file_after_load_NoFile:
  "fst (snd (loadState clk u NoFile)) =
     Stored (toStored (DEFAULT_STATE\<lparr>created_at := Some (getJSTTimestamp clk),
                                     today_max_posts := randomDailyMaxPosts u,
                                     updated_at := Some (getJSTTimestamp clk)\<rparr>))"
  by (simp add: loadState_def saveState_def Let_def)

lemma last_post_date_default_stored:
  "r_last_post_date (toStored (DEFAULT_STATE\<lparr>created_at := c, today_max_posts := n,
                                               updated_at := d\<rparr>)) = None"
  by (simp add: toStored_def DEFAULT_STATE_def)

lemma perDayFields_reload_NoFile:
  "perDayFields (fst (loadState clk2 u2 (fst (snd (loadState clk1 u1 NoFile)))))
     = (0, [], False, False, False, 0, [])"
  unfolding file_after_load_NoFile loadState_Stored perDayFields_monthRollover
    perDayFields_migrate_rollover last_post_date_default_stored
  by (simp add: isSameJSTDay_def)

lemma today_max_posts_load_default:
  "today_max_posts (fst (loadState clk u NoFile)) = randomDailyMaxPosts u"
  "today_max_posts (fst (loadState clk u Unreadable)) = randomDailyMaxPosts u"
  by (simp_all add: loadState_def saveState_def Let_def)

lemma today_max_posts_reload_NoFile:
  "today_max_posts (fst (loadState clk2 u2 (fst (snd (loadState clk1 u1 NoFile)))))
     = randomDailyMaxPosts u2"
  unfolding file_after_load_NoFile loadState_Stored today_max_posts_monthRollover
    today_max_posts_migrate_rollover last_post_date_default_stored
  by (simp add: isSameJSTDay_def)

lemma file_after_load_other:
  "fst (snd (loadState clk u Unreadable)) = Unreadable"
  "fst (snd (loadState clk u (Stored r))) = Stored r"
  by (simp_all add: loadState_def)

text \<open>
  C7, amended. The second load reads the file as the first load left it, on the same civil
  day. Both loads return the same \<open>today_post_count\<close>, \<open>today_slots_used\<close>, exclusivity
  flags, \<open>today_skip_count\<close> and \<open>today_narrative\<close>. They return the same
  \<open>today_max_posts\<close> when the stored \<open>last_post_date\<close> is the current day and the stored
  \<open>today_max_posts\<close> is present, or when both loads draw the same random values; otherwise
  each load re-rolls it.
\<close>

theorem load_twice_same_day:
  assumes "dateString clk1 = dateString clk2"
  shows "perDayFields (fst (loadState clk2 u2 (fst (snd (loadState clk1 u1 file)))))
           = perDayFields (fst (loadState clk1 u1 file))
       \<and> (u1 = u2
            \<or> (\<exists>r n. file = Stored r \<and> isSameJSTDay clk1 (r_last_post_date r)
                      \<and> r_today_max_posts r = Some n)
          \<longrightarrow> today_max_posts (fst (loadState clk2 u2 (fst (snd (loadState clk1 u1 file)))))
                = today_max_posts (fst (loadState clk1 u1 file)))"
proof (cases "file")
  case NoFile
  then show ?thesis
    by (simp add: perDayFields_reload_NoFile perDayFields_load_NoFile
        today_max_posts_reload_NoFile today_max_posts_load_default)
next
  case Unreadable
  then show ?thesis
    by (simp add: file_after_load_other perDayFields_load_Unreadable
        today_max_posts_load_default)
next
  case (Stored r)
  have same: "isSameJSTDay clk2 (r_last_post_date r) = isSameJSTDay clk1 (r_last_post_date r)"
    by (rule isSameJSTDay_cong [OF assms, symmetric])
  have per: "perDayFields (fst (loadState clk2 u2 (Stored r)))
      = perDayFields (fst (loadState clk1 u1 (Stored r)))"
    by (simp add: loadState_Stored perDayFields_monthRollover perDayFields_migrate_rollover same)
  have mx: "today_max_posts (fst (loadState clk u (Stored r))) =
      (if isSameJSTDay clk (r_last_post_date r)
       then (case r_today_max_posts r of None \<Rightarrow> randomDailyMaxPosts u | Some n \<Rightarrow> n)
       else randomDailyMaxPosts u)" for clk u
    by (simp add: loadState_Stored today_max_posts_monthRollover today_max_posts_migrate_rollover)
  show ?thesis
    using Stored per by (auto simp: file_after_load_other mx same)
qed

text \<open>
  On the sample file both loads reset the per-day fields; with the last post dated today,
  both keep the stored limit 9 although their draws differ.
\<close>

theorem load_twice_same_day_witness:
  "perDayFields (fst (loadState sampleClock (1 / 2, 9 / 10)
       (fst (snd (loadState sampleClock (1 / 2, 0) (Stored sampleStored))))))
     = (0, [], False, False, False, 0, [])
   \<and> isSameJSTDay sampleClock (r_last_post_date (sampleStored\<lparr>r_last_post_date := Some (dateString sampleClock)\<rparr>))
   \<and> today_max_posts (fst (loadState sampleClock (1 / 2, 9 / 10)
       (fst (snd (loadState sampleClock (1 / 2, 0)
          (Stored (sampleStored\<lparr>r_last_post_date := Some (dateString sampleClock)\<rparr>)))))))
     = 9"
proof -
  let ?today = "sampleStored\<lparr>r_last_post_date := Some (dateString sampleClock)\<rparr>"
  have d: "dateString sampleClock = dateString sampleClock"
    by simp
  have h: "isSameJSTDay sampleClock (r_last_post_date ?today)"
    by (simp add: isSameJSTDay_def sampleClock_def)
  have h': "isSameJSTDay sampleClock (Some (dateString sampleClock))"
    using h by simp
  have first: "perDayFields (fst (loadState sampleClock (1 / 2, 0) (Stored sampleStored)))
      = (0, [], False, False, False, 0, [])"
    by (simp add: loadState_Stored perDayFields_monthRollover perDayFields_migrate_rollover
        isSameJSTDay_def sampleClock_def sampleStored_def)
  have mx: "today_max_posts (fst (loadState sampleClock (1 / 2, 0) (Stored ?today))) = 9"
    by (simp add: loadState_Stored today_max_posts_monthRollover
        today_max_posts_migrate_rollover h') (simp add: sampleStored_def)
  have ex: "\<exists>r n. Stored ?today = Stored r \<and> isSameJSTDay sampleClock (r_last_post_date r)
      \<and> r_today_max_posts r = Some n"
    using h by (intro exI [of _ ?today] exI [of _ 9]) (simp add: sampleStored_def)
  show ?thesis
    using first mx h ex
      load_twice_same_day [OF d, of "(1 / 2, 9 / 10)" "(1 / 2, 0)" "Stored sampleStored"]
      load_twice_same_day [OF d, of "(1 / 2, 9 / 10)" "(1 / 2, 0)" "Stored ?today"]
    by simp
qed

subsection \<open>C8: the state after a post\<close>

text \<open>
  C8. For a state with at most 7 recent posts, \<open>updateStateAfterPost\<close> returns a state with
  at most 7 recent posts, the new record first and the older ones after it, cut at 7;
  \<open>today_post_count\<close> and \<open>month_total_posts\<close> grow by exactly 1; the narrative gets the
  text appended, cut to its first 20 code units followed by the ellipsis U+2026 when it is
  longer than 20, after the separator U+0020 U+2192 U+0020 when the narrative was not
  empty; the energy becomes \<open>max 10 (energy - 10)\<close>, which is at least 10.
\<close>

theorem updateStateAfterPost_effects:
  assumes "length (last_posts s) \<le> 7"
  shows "length (last_posts (updateStateAfterPost clk u s t slot hasImage)) \<le> 7
       \<and> last_posts (updateStateAfterPost clk u s t slot hasImage)
           = take 7 (\<lparr>p_text = t, p_slot = slot, p_timestamp = getJSTTimestamp clk,
                      p_hasImage = hasImage\<rparr> # last_posts s)
       \<and> hd (last_posts (updateStateAfterPost clk u s t slot hasImage))
           = \<lparr>p_text = t, p_slot = slot, p_timestamp = getJSTTimestamp clk,
              p_hasImage = hasImage\<rparr>
       \<and> today_post_count (updateStateAfterPost clk u s t slot hasImage)
           = today_post_count s + 1
       \<and> month_total_posts (updateStateAfterPost clk u s t slot hasImage)
           = month_total_posts s + 1
       \<and> today_narrative (updateStateAfterPost clk u s t slot hasImage)
           = today_narrative s
             @ (if today_narrative s = [] then [] else [0x20, 0x2192, 0x20])
             @ (if length t > 20 then take 20 t @ [0x2026] else t)
       \<and> energy (updateStateAfterPost clk u s t slot hasImage) = max 10 (energy s - 10)
       \<and> 10 \<le> energy (updateStateAfterPost clk u s t slot hasImage)"
proof -
  have posts: "last_posts (updateStateAfterPost clk u s t slot hasImage)
      = take 7 (\<lparr>p_text = t, p_slot = slot, p_timestamp = getJSTTimestamp clk,
                 p_hasImage = hasImage\<rparr> # last_posts s)"
    by (simp add: updateStateAfterPost_def Let_def)
  have count: "today_post_count (updateStateAfterPost clk u s t slot hasImage)
      = today_post_count s + 1"
    by (simp add: updateStateAfterPost_def Let_def)
  have month: "month_total_posts (updateStateAfterPost clk u s t slot hasImage)
      = month_total_posts s + 1"
    by (simp add: updateStateAfterPost_def Let_def)
  have narrative: "today_narrative (updateStateAfterPost clk u s t slot hasImage)
      = today_narrative s
        @ (if today_narrative s = [] then [] else [0x20, 0x2192, 0x20])
        @ (if length t > 20 then take 20 t @ [0x2026] else t)"
    by (simp add: updateStateAfterPost_def Let_def)
  have en: "energy (updateStateAfterPost clk u s t slot hasImage) = max 10 (energy s - 10)"
    by (simp add: updateStateAfterPost_def Let_def)
  show ?thesis
    using assms by (simp add: posts count month narrative en)
qed

theorem updateStateAfterPost_effects_witness:
  "length (last_posts (migrate (0, 0) sampleStored)) \<le> 7
   \<and> today_post_count (updateStateAfterPost sampleClock 0 (migrate (0, 0) sampleStored)
        [0x61] ''delivery'' False) = 4
   \<and> today_narrative (updateStateAfterPost sampleClock 0 (migrate (0, 0) sampleStored)
        [0x61] ''delivery'' False) = [0x61, 0x62, 0x20, 0x2192, 0x20, 0x61]
   \<and> energy (updateStateAfterPost sampleClock 0 (migrate (0, 0) sampleStored)
        [0x61] ''delivery'' False) = 20"
proof -
  have h: "length (last_posts (migrate (0, 0) sampleStored)) \<le> 7"
    by (simp add: migrate_def sampleStored_def)
  show ?thesis
    using h updateStateAfterPost_effects [OF h, of sampleClock 0 "[0x61]" "''delivery''" False]
    by (simp add: migrate_def sampleStored_def)
qed

subsection \<open>C10: hashtags and the length limit\<close>

lemma getRandomHashtags_cases:
  "getRandomHashtags cfg u sh = [REQUIRED_HASHTAG]
   \<or> (\<exists>tag. getRandomHashtags cfg u sh = [REQUIRED_HASHTAG, 0x23 # tag])"
  by (simp add: getRandomHashtags_def Let_def)

lemma appendHashtags_cases:
  "appendHashtags cfg u sh tweet maxLength = tweet
   \<or> ((appendHashtags cfg u sh tweet maxLength = tweet @ [0x0A] @ REQUIRED_HASHTAG
        \<or> (\<exists>tag. appendHashtags cfg u sh tweet maxLength
               = tweet @ [0x0A] @ REQUIRED_HASHTAG @ [0x20] @ [0x23] @ tag))
       \<and> int (length (codepoints (appendHashtags cfg u sh tweet maxLength))) \<le> maxLength)"
proof -
  consider (one) "getRandomHashtags cfg u sh = [REQUIRED_HASHTAG]"
    | (two) tag where "getRandomHashtags cfg u sh = [REQUIRED_HASHTAG, 0x23 # tag]"
    using getRandomHashtags_cases [of cfg u sh] by blast
  then show ?thesis
  proof cases
    case one
    then show ?thesis
      by (simp add: appendHashtags_def Let_def)
  next
    case two
    then show ?thesis
      by (simp add: appendHashtags_def Let_def)
  qed
qed

text \<open>
  C10. \<open>appendHashtags\<close> returns the tweet unchanged, or the tweet followed by a newline,
  the required hashtag and possibly a blank and a second hashtag, and in that case the
  result has at most \<open>maxLength\<close> code points. The tweet is always a prefix of the result.
  A tweet within the limit gives a result within the limit; in particular, with the limit
  140 that run.ts passes, a tweet of at most 140 code points gives a result of at most 140.
\<close>

theorem appendHashtags_within_limit:
  "(appendHashtags cfg u sh tweet maxLength = tweet
    \<or> ((appendHashtags cfg u sh tweet maxLength = tweet @ [0x0A] @ REQUIRED_HASHTAG
         \<or> (\<exists>tag. appendHashtags cfg u sh tweet maxLength
                = tweet @ [0x0A] @ REQUIRED_HASHTAG @ [0x20] @ [0x23] @ tag))
        \<and> int (length (codepoints (appendHashtags cfg u sh tweet maxLength))) \<le> maxLength))
   \<and> prefix tweet (appendHashtags cfg u sh tweet maxLength)
   \<and> (int (length (codepoints tweet)) \<le> maxLength
        \<longrightarrow> int (length (codepoints (appendHashtags cfg u sh tweet maxLength))) \<le> maxLength)
   \<and> (length (codepoints tweet) \<le> 140
        \<longrightarrow> length (codepoints (appendHashtags cfg u sh tweet 140)) \<le> 140)"
proof -
  have shape: "appendHashtags cfg u sh tweet n = tweet
      \<or> ((appendHashtags cfg u sh tweet n = tweet @ [0x0A] @ REQUIRED_HASHTAG
           \<or> (\<exists>tag. appendHashtags cfg u sh tweet n
                  = tweet @ [0x0A] @ REQUIRED_HASHTAG @ [0x20] @ [0x23] @ tag))
          \<and> int (length (codepoints (appendHashtags cfg u sh tweet n))) \<le> n)" for n
    by (rule appendHashtags_cases)
  have pre: "prefix tweet (appendHashtags cfg u sh tweet maxLength)"
    using shape [of maxLength] by (auto simp: prefix_def)
  have lim: "int (length (codepoints tweet)) \<le> n
      \<Longrightarrow> int (length (codepoints (appendHashtags cfg u sh tweet n))) \<le> n" for n
    using shape [of n] by auto
  have lim140: "length (codepoints tweet) \<le> 140
      \<Longrightarrow> length (codepoints (appendHashtags cfg u sh tweet 140)) \<le> 140"
    using lim [of 140] by simp
  show ?thesis
    using shape [of maxLength] pre lim [of maxLength] lim140 by blast
qed

text \<open>
  With the sample hashtag file, a draw below 1/2 and a limit of 140, the tweet \<open>ab\<close> gets
  both hashtags (13 code points); with a limit of 8 it gets the required one only, with a
  limit of 3 none.
\<close>

lemma sample_hashtags:
  "getRandomHashtags sampleConfig 0 rev = [REQUIRED_HASHTAG, [0x23, 0x61, 0x62]]"
  by (simp add: getRandomHashtags_def loadHashtags_def loadLines_def sampleConfig_def
      trim_def isWhitespace_def startsWith_def REQUIRED_HASHTAG_def)

theorem appendHashtags_within_limit_witness:
  "length (codepoints [0x61, 0x62]) \<le> 140
   \<and> appendHashtags sampleConfig 0 rev [0x61, 0x62] 140
       = [0x61, 0x62, 0x0A, 0x23, 0x8EFD, 0x8CA8, 0x7269, 0x20, 0x23, 0x61, 0x62]
   \<and> appendHashtags sampleConfig 0 rev [0x61, 0x62] 8
       = [0x61, 0x62, 0x0A, 0x23, 0x8EFD, 0x8CA8, 0x7269]
   \<and> appendHashtags sampleConfig 0 rev [0x61, 0x62] 3 = [0x61, 0x62]
   \<and> length (codepoints (appendHashtags sampleConfig 0 rev [0x61, 0x62] 140)) \<le> 140"
proof -
  have h: "length (codepoints [0x61, 0x62]) \<le> 140"
    by (simp add: isHighSurrogate_def)
  have a: "appendHashtags sampleConfig 0 rev [0x61, 0x62] 140
      = [0x61, 0x62, 0x0A, 0x23, 0x8EFD, 0x8CA8, 0x7269, 0x20, 0x23, 0x61, 0x62]"
    by (simp add: appendHashtags_def sample_hashtags REQUIRED_HASHTAG_def
        isHighSurrogate_def isLowSurrogate_def)
  have b: "appendHashtags sampleConfig 0 rev [0x61, 0x62] 8
      = [0x61, 0x62, 0x0A, 0x23, 0x8EFD, 0x8CA8, 0x7269]"
    by (simp add: appendHashtags_def sample_hashtags REQUIRED_HASHTAG_def
        isHighSurrogate_def isLowSurrogate_def)
  have c: "appendHashtags sampleConfig 0 rev [0x61, 0x62] 3 = [0x61, 0x62]"
    by (simp add: appendHashtags_def sample_hashtags REQUIRED_HASHTAG_def
        isHighSurrogate_def isLowSurrogate_def)
  show ?thesis
    using h a b c appendHashtags_within_limit [of sampleConfig 0 rev "[0x61, 0x62]" 140]
    by simp
qed

subsection \<open>C9: the fallback selector\<close>

lemma loadLines_entries_nonempty: "t \<in> set (loadLines f) \<Longrightarrow> t \<noteq> []"
  by (auto simp: loadLines_def split: option.splits)

lemma slotKeywords_own:
  assumes "slot \<notin> {''constructor'', ''hasOwnProperty'', ''isPrototypeOf'',
             ''propertyIsEnumerable'', ''__defineGetter__'', ''__defineSetter__'',
             ''__lookupGetter__'', ''__lookupSetter__''}"
  shows "slotKeywords slot = KeywordList (keywordList (slotKeywords slot))
       \<or> slotKeywords slot = InheritedFunction 0
       \<or> slotKeywords slot = PrototypeObject"
  using assms by (simp add: slotKeywords_def objectPrototypeFunctions_def keywordList_def)

lemma fallbackCandidates_Inr:
  assumes "slot \<notin> {''constructor'', ''hasOwnProperty'', ''isPrototypeOf'',
             ''propertyIsEnumerable'', ''__defineGetter__'', ''__defineSetter__'',
             ''__lookupGetter__'', ''__lookupSetter__''}"
  shows "\<exists>cands. fallbackCandidates (slotKeywords slot) tweets = Inr cands
           \<and> set cands \<subseteq> set tweets
           \<and> (tweets \<noteq> [] \<longrightarrow> cands \<noteq> [])
           \<and> (filter (\<lambda>tweet. list_ex (\<lambda>kw. includes_str tweet kw)
                         (keywordList (slotKeywords slot))) tweets = []
                \<longrightarrow> cands = tweets)"
proof -
  consider (list) "slotKeywords slot = KeywordList (keywordList (slotKeywords slot))"
    | (fn) "slotKeywords slot = InheritedFunction 0"
    | (obj) "slotKeywords slot = PrototypeObject"
    using slotKeywords_own [OF assms] by blast
  then show ?thesis
  proof cases
    case list
    define ks where "ks = keywordList (slotKeywords slot)"
    have k: "slotKeywords slot = KeywordList ks"
      using list by (simp add: ks_def)
    have kl: "keywordList (KeywordList ks) = ks"
      by (simp add: keywordList_def)
    show ?thesis
      unfolding k kl by (auto simp: fallbackCandidates_def Let_def)
  next
    case fn
    then show ?thesis
      by (simp add: fallbackCandidates_def)
  next
    case obj
    then show ?thesis
      by (simp add: fallbackCandidates_def)
  qed
qed

lemma find_None_list_ex: "find P xs = None \<longleftrightarrow> \<not> list_ex P xs"
  by (induction xs) auto

text \<open>
  For a slot named like an inherited function with parameters the keyword filter throws
  as soon as the pool is not empty.
\<close>

lemma slotKeywords_inherited:
  "slotKeywords ''constructor'' = InheritedFunction 1"
  "slotKeywords ''hasOwnProperty'' = InheritedFunction 1"
  "slotKeywords ''isPrototypeOf'' = InheritedFunction 1"
  "slotKeywords ''propertyIsEnumerable'' = InheritedFunction 1"
  "slotKeywords ''__defineGetter__'' = InheritedFunction 2"
  "slotKeywords ''__defineSetter__'' = InheritedFunction 2"
  "slotKeywords ''__lookupGetter__'' = InheritedFunction 1"
  "slotKeywords ''__lookupSetter__'' = InheritedFunction 1"
  by (simp_all add: slotKeywords_def objectPrototypeFunctions_def)

lemma getFallbackTweetForSlot_inherited_function:
  assumes "loadFallbackTweets cfg \<noteq> []"
    and "slot \<in> {''constructor'', ''hasOwnProperty'', ''isPrototypeOf'',
           ''propertyIsEnumerable'', ''__defineGetter__'', ''__defineSetter__'',
           ''__lookupGetter__'', ''__lookupSetter__''}"
  shows "getFallbackTweetForSlot cfg sh slot posts = Inl TypeError"
proof -
  have "slotKeywords slot = InheritedFunction 1 \<or> slotKeywords slot = InheritedFunction 2"
    using assms(2) slotKeywords_inherited by blast
  then show ?thesis
    using assms(1) by (auto simp: getFallbackTweetForSlot_def fallbackCandidates_def)
qed

text \<open>
  C9. The loaded fallback pool is not empty, the shuffle returns a permutation of its
  argument, and the slot is not named like one of the eight functions with parameters that
  every object inherits (for those names, and only those, the keyword lookup throws).
  Then \<open>getFallbackTweetForSlot\<close> returns a text, for every such slot and every history:
  a non-empty string among the candidates, which are pool entries. When no pool entry
  contains a keyword of the slot the candidates are the whole pool. When no shuffled
  candidate passes the similarity check at 0.5 the result is the first shuffled candidate.
\<close>

theorem getFallbackTweetForSlot_never_null:
  assumes pool: "loadFallbackTweets cfg \<noteq> []"
    and perm: "\<forall>xs. mset (sh xs) = mset xs"
    and own: "slot \<notin> {''constructor'', ''hasOwnProperty'', ''isPrototypeOf'',
                ''propertyIsEnumerable'', ''__defineGetter__'', ''__defineSetter__'',
                ''__lookupGetter__'', ''__lookupSetter__''}"
  shows "\<exists>cands t.
           fallbackCandidates (slotKeywords slot) (loadFallbackTweets cfg) = Inr cands
         \<and> set cands \<subseteq> set (loadFallbackTweets cfg)
         \<and> getFallbackTweetForSlot cfg sh slot posts = Inr (Some t)
         \<and> t \<noteq> [] \<and> t \<in> set cands
         \<and> (filter (\<lambda>tweet. list_ex (\<lambda>kw. includes_str tweet kw)
                       (keywordList (slotKeywords slot))) (loadFallbackTweets cfg) = []
              \<longrightarrow> cands = loadFallbackTweets cfg)
         \<and> (\<not> list_ex (\<lambda>c. sim_valid (checkSimilarity c posts (5 / 10))) (sh cands)
              \<longrightarrow> getFallbackTweetForSlot cfg sh slot posts = Inr (Some (hd (sh cands))))"
proof -
  let ?P = "\<lambda>c. sim_valid (checkSimilarity c posts (5 / 10))"
  obtain cands where cands: "fallbackCandidates (slotKeywords slot) (loadFallbackTweets cfg) = Inr cands"
    and sub: "set cands \<subseteq> set (loadFallbackTweets cfg)"
    and cands_ne: "cands \<noteq> []"
    and nomatch: "filter (\<lambda>tweet. list_ex (\<lambda>kw. includes_str tweet kw)
                     (keywordList (slotKeywords slot))) (loadFallbackTweets cfg) = []
                  \<longrightarrow> cands = loadFallbackTweets cfg"
    using fallbackCandidates_Inr [OF own, of "loadFallbackTweets cfg"] pool by blast
  have set_sh: "set (sh cands) = set cands"
    using perm by (metis mset_eq_setD)
  have sh_ne: "sh cands \<noteq> []"
    using set_sh cands_ne by (metis set_empty)
  have entries: "t \<in> set (sh cands) \<Longrightarrow> t \<noteq> []" for t
    using set_sh sub loadLines_entries_nonempty [of t "fallback_tweets_file cfg"]
    by (auto simp: loadFallbackTweets_def)
  have unfold: "getFallbackTweetForSlot cfg sh slot posts =
      (case find ?P (sh cands) of
         Some candidate \<Rightarrow> Inr (Some candidate)
       | None \<Rightarrow> (case sh cands of
                    [] \<Rightarrow> Inr None
                  | x # xs \<Rightarrow> if x = [] then Inr None else Inr (Some x)))"
    using pool by (simp add: getFallbackTweetForSlot_def cands Let_def)
  have first: "\<exists>t. getFallbackTweetForSlot cfg sh slot posts = Inr (Some t) \<and> t \<noteq> []
      \<and> t \<in> set cands"
  proof (cases "find ?P (sh cands)")
    case None
    obtain x xs where xs: "sh cands = x # xs"
      using sh_ne by (cases "sh cands") auto
    then have "x \<in> set (sh cands)"
      by simp
    then have "x \<noteq> []" "x \<in> set cands"
      using entries set_sh by auto
    then show ?thesis
      using None xs by (simp add: unfold)
  next
    case (Some c)
    then have "c \<in> set (sh cands)"
      by (auto simp: find_Some_iff)
    then have "c \<noteq> []" "c \<in> set cands"
      using entries set_sh by auto
    then show ?thesis
      using Some by (simp add: unfold)
  qed
  have degraded: "getFallbackTweetForSlot cfg sh slot posts = Inr (Some (hd (sh cands)))"
    if "\<not> list_ex ?P (sh cands)"
  proof -
    have none: "find ?P (sh cands) = None"
      using that by (simp add: find_None_list_ex)
    obtain x xs where xs: "sh cands = x # xs"
      using sh_ne by (cases "sh cands") auto
    then have "x \<in> set (sh cands)"
      by simp
    then have "x \<noteq> []"
      using entries by auto
    then show ?thesis
      using none xs by (simp add: unfold)
  qed
  show ?thesis
    using cands sub first nomatch degraded by blast
qed

text \<open>
  The sample pool has two entries. The morning slot has no keyword, so both are
  candidates; reversed, \<open>cd\<close> comes first. Against a history that holds both entries no
  candidate passes the similarity check, and \<open>cd\<close> is returned all the same. For the
  delivery slot only the entry with U+914D U+9054 is a candidate.
\<close>

lemma sample_pool:
  "loadFallbackTweets sampleConfig = [[0x914D, 0x9054, 0x20, 0x61, 0x62], [0x63, 0x64]]"
  by (simp add: loadFallbackTweets_def loadLines_def sampleConfig_def trim_def
      isWhitespace_def startsWith_def)


theorem getFallbackTweetForSlot_never_null_witness:
  "loadFallbackTweets sampleConfig \<noteq> []
   \<and> (\<forall>xs :: ustring list. mset (rev xs) = mset xs)
   \<and> fallbackCandidates (slotKeywords ''morning'') (loadFallbackTweets sampleConfig)
       = Inr (loadFallbackTweets sampleConfig)
   \<and> getFallbackTweetForSlot sampleConfig rev ''morning''
        [\<lparr>p_text = [0x63, 0x64], p_slot = ''casual'', p_timestamp = [], p_hasImage = False\<rparr>,
         \<lparr>p_text = [0x914D, 0x9054, 0x20, 0x61, 0x62], p_slot = ''delivery'',
          p_timestamp = [], p_hasImage = False\<rparr>]
       = Inr (Some [0x63, 0x64])"
proof -
  let ?posts = "[\<lparr>p_text = [0x63, 0x64], p_slot = ''casual'', p_timestamp = [],
                   p_hasImage = False\<rparr>,
                 \<lparr>p_text = [0x914D, 0x9054, 0x20, 0x61, 0x62], p_slot = ''delivery'',
                   p_timestamp = [], p_hasImage = False\<rparr>]"
  have pool: "loadFallbackTweets sampleConfig \<noteq> []"
    by (simp add: sample_pool)
  have perm: "\<forall>xs :: ustring list. mset (rev xs) = mset xs"
    by simp
  have own: "''morning'' \<notin> {''constructor'', ''hasOwnProperty'', ''isPrototypeOf'',
      ''propertyIsEnumerable'', ''__defineGetter__'', ''__defineSetter__'',
      ''__lookupGetter__'', ''__lookupSetter__''}"
    by simp
  have cands: "fallbackCandidates (slotKeywords ''morning'') (loadFallbackTweets sampleConfig)
      = Inr [[0x914D, 0x9054, 0x20, 0x61, 0x62], [0x63, 0x64]]"
    by (simp add: sample_pool fallbackCandidates_def slotKeywords_def
        objectPrototypeFunctions_def)
  have bg1: "getBigrams [0x63, 0x64] = [[0x63, 0x64]]"
    by (simp add: getBigrams_def setAdd_def isWhitespace_def isHighSurrogate_def)
  have bg2: "getBigrams [0x914D, 0x9054, 0x20, 0x61, 0x62]
      = [[0x914D, 0x9054], [0x9054, 0x61], [0x61, 0x62]]"
    by (simp add: getBigrams_def setAdd_def isWhitespace_def isHighSurrogate_def)
  have none: "\<not> list_ex (\<lambda>c. sim_valid (checkSimilarity c ?posts (5 / 10)))
      (rev [[0x914D, 0x9054, 0x20, 0x61, 0x62], [0x63, 0x64]])"
    by (simp add: checkSimilarity_def similarityStep_def bg1 bg2
        jaccardSimilarity_def newSet_def setAdd_def)
  show ?thesis
    using pool perm none cands
      getFallbackTweetForSlot_never_null [OF pool perm own, of ?posts]
    by (auto simp: sample_pool)
qed

subsection \<open>C5: the required vocabulary\<close>

lemma filter_nonempty_list_ex: "length (filter P xs) > 0 \<longleftrightarrow> list_ex P xs"
  by (induction xs) auto

text \<open>
  C5 asks that the required-vocabulary check be applied only for the slots that require
  it. \<open>validateTweet\<close> never reads the slot: for every slot, the morning slot included, the
  result carries the vocabulary error exactly when the text contains none of the
  configured logistics words, and is then invalid.
\<close>

theorem validateTweet_vocabulary_in_every_slot:
  "(NoLogisticsWord \<in> set (errors (validateTweet cfg t posts slot))
      \<longleftrightarrow> \<not> list_ex (\<lambda>word. includes_str t word) (LOGISTICS_WORDS cfg))
   \<and> (\<not> list_ex (\<lambda>word. includes_str t word) (LOGISTICS_WORDS cfg)
        \<longrightarrow> \<not> valid (validateTweet cfg t posts slot))"
  using filter_nonempty_list_ex [of "\<lambda>word. includes_str t word" "LOGISTICS_WORDS cfg"]
  by (simp add: validateTweet_def checkLogisticsWord_def Let_def)

text \<open>
  The three-letter morning greeting U+304A U+306F U+3088, in the morning slot, with an
  empty history: the only error is the missing logistics word.
\<close>

theorem validateTweet_vocabulary_in_every_slot_witness:
  "\<not> list_ex (\<lambda>word. includes_str [0x304A, 0x306F, 0x3088] word) (LOGISTICS_WORDS sampleConfig)
   \<and> errors (validateTweet sampleConfig [0x304A, 0x306F, 0x3088] [] ''morning'')
       = [NoLogisticsWord]
   \<and> \<not> valid (validateTweet sampleConfig [0x304A, 0x306F, 0x3088] [] ''morning'')"
proof -
  have words: "LOGISTICS_WORDS sampleConfig = [[0x914D, 0x9054], [0x8377, 0x7269]]"
    by (simp add: LOGISTICS_WORDS_def loadLines_def sampleConfig_def trim_def
        isWhitespace_def startsWith_def)
  have forbidden: "FORBIDDEN_WORDS sampleConfig = []"
    by (simp add: FORBIDDEN_WORDS_def loadLines_def sampleConfig_def)
  have h: "\<not> list_ex (\<lambda>word. includes_str [0x304A, 0x306F, 0x3088] word)
      (LOGISTICS_WORDS sampleConfig)"
    by (simp add: words)
  have e: "errors (validateTweet sampleConfig [0x304A, 0x306F, 0x3088] [] ''morning'')
      = [NoLogisticsWord]"
    by (simp add: validateTweet_def checkLength_def checkEmoji_def countEmoji_def
        checkForbiddenWords_def checkLogisticsWord_def checkSimilarity_def words forbidden
        isHighSurrogate_def Let_def) (simp add: sampleConfig_def)
  show ?thesis
    using h e
      validateTweet_vocabulary_in_every_slot [of sampleConfig "[0x304A, 0x306F, 0x3088]" "[]"
        "''morning''"]
    by simp
qed

subsection \<open>C1: the daily quota\<close>

lemma randomDailyMaxPosts_lower: "validDraw (snd u) \<Longrightarrow> 8 \<le> randomDailyMaxPosts u"
proof -
  assume "validDraw (snd u)"
  then have "0 \<le> snd u"
    by (simp add: validDraw_def)
  then have "0 \<le> \<lfloor>snd u * 5\<rfloor>" "0 \<le> \<lfloor>snd u * 3\<rfloor>"
    by simp_all
  then show ?thesis
    by (simp add: randomDailyMaxPosts_def)
qed

lemma loadState_default_counts:
  "today_post_count (fst (loadState clk u NoFile)) = 0"
  "today_post_count (fst (loadState clk u Unreadable)) = 0"
  by (simp_all add: loadState_def saveState_def Let_def DEFAULT_STATE_def)

lemma loadState_Stored_rest: "snd (loadState clk u (Stored r)) = (Stored r, [])"
  by (simp add: loadState_def)

lemma loadState_Unreadable_rest: "snd (loadState clk u Unreadable) = (Unreadable, [])"
  by (simp add: loadState_def)

lemma main_quota:
  assumes "today_max_posts (loadedState env) \<le> today_post_count (loadedState env)"
  shows "main env =
           \<lparr>o_path = QuotaReached, o_state = loadedState env,
            o_file = fst (snd (loadState (clockLoad env) (maxPostsDraws env) (stateFile env))),
            o_exit = 0,
            o_events = snd (snd (loadState (clockLoad env) (maxPostsDraws env) (stateFile env)))\<rparr>"
  using assms by (simp add: main_def loadedState_def Let_def)

text \<open>
  C1. When the loaded state has \<open>today_post_count \<ge> today_max_posts\<close>, the run ends at
  the quota check: the outcome carries the loaded state unchanged, the state file as it
  was, exit code 0, and no outside call at all: no generator call, no upload, no create
  call and no \<open>saveState\<close>. The draw that scales the daily limit is a value of
  \<open>Math.random()\<close>; a freshly created state then has a limit of at least 8 and 0 posts.
\<close>

theorem quota_reached_run_does_nothing:
  assumes draw: "validDraw (snd (maxPostsDraws env))"
    and quota: "today_max_posts (loadedState env) \<le> today_post_count (loadedState env)"
  shows "main env =
           \<lparr>o_path = QuotaReached, o_state = loadedState env, o_file = stateFile env,
            o_exit = 0, o_events = []\<rparr>"
proof (cases "stateFile env")
  case NoFile
  have "today_post_count (loadedState env) = 0"
    using NoFile by (simp add: loadedState_def loadState_default_counts)
  moreover have "8 \<le> today_max_posts (loadedState env)"
    using NoFile randomDailyMaxPosts_lower [OF draw]
    by (simp add: loadedState_def today_max_posts_load_default)
  ultimately show ?thesis
    using quota by simp
next
  case Unreadable
  then show ?thesis
    using main_quota [OF quota] by (simp add: loadState_Unreadable_rest)
next
  case (Stored r)
  then show ?thesis
    using main_quota [OF quota] by (simp add: loadState_Stored_rest)
qed

text \<open>
  The sample file with the last post dated today, 9 posts counted and a limit of 9.
\<close>

theorem quota_reached_run_does_nothing_witness:
  "validDraw (snd (maxPostsDraws sampleEnv))
   \<and> today_post_count (loadedState (sampleEnv\<lparr>stateFile :=
        Stored (sampleStored\<lparr>r_last_post_date := Some (dateString sampleClock),
                              r_today_post_count := 9\<rparr>)\<rparr>)) = 9
   \<and> today_max_posts (loadedState (sampleEnv\<lparr>stateFile :=
        Stored (sampleStored\<lparr>r_last_post_date := Some (dateString sampleClock),
                              r_today_post_count := 9\<rparr>)\<rparr>)) = 9
   \<and> o_path (main (sampleEnv\<lparr>stateFile :=
        Stored (sampleStored\<lparr>r_last_post_date := Some (dateString sampleClock),
                              r_today_post_count := 9\<rparr>)\<rparr>)) = QuotaReached
   \<and> o_events (main (sampleEnv\<lparr>stateFile :=
        Stored (sampleStored\<lparr>r_last_post_date := Some (dateString sampleClock),
                              r_today_post_count := 9\<rparr>)\<rparr>)) = []
   \<and> o_file (main (sampleEnv\<lparr>stateFile :=
        Stored (sampleStored\<lparr>r_last_post_date := Some (dateString sampleClock),
                              r_today_post_count := 9\<rparr>)\<rparr>))
       = Stored (sampleStored\<lparr>r_last_post_date := Some (dateString sampleClock),
                               r_today_post_count := 9\<rparr>)"
proof -
  let ?r = "sampleStored\<lparr>r_last_post_date := Some (dateString sampleClock),
                          r_today_post_count := 9\<rparr>"
  let ?env = "sampleEnv\<lparr>stateFile := Stored ?r\<rparr>"
  have draw: "validDraw (snd (maxPostsDraws ?env))"
    by (simp add: sampleEnv_def validDraw_def)
  have same: "isSameJSTDay sampleClock (Some (dateString sampleClock))"
    by (simp add: isSameJSTDay_def sampleClock_def)
  have loaded: "loadedState ?env = monthRollover sampleClock (migrate (1 / 2, 0) ?r)"
    using same by (simp add: loadedState_def loadState_Stored dayRollover_def sampleEnv_def)
  have count: "today_post_count (loadedState ?env) = 9"
    by (simp add: loaded monthRollover_per_day migrate_def)
  have limit: "today_max_posts (loadedState ?env) = 9"
    by (simp add: loaded today_max_posts_monthRollover migrate_def) (simp add: sampleStored_def)
  have quota: "today_max_posts (loadedState ?env) \<le> today_post_count (loadedState ?env)"
    by (simp add: count limit)
  show ?thesis
    using draw count limit quota_reached_run_does_nothing [OF draw quota]
    by (simp add: sampleEnv_def)
qed

subsection \<open>C3: the skip probability and the exempt slots\<close>

lemma o_path_publish:
  "o_path (publish env s f evs slot t th ip) = Posted
   \<or> o_path (publish env s f evs slot t th ip) = PublishFailed"
  by (simp add: publish_def Let_def)

lemma o_path_generateAndPost: "o_path (generateAndPost env s f evs slot) \<noteq> Skipped"
proof -
  have "o_path (publish env s' f evs' slot t th ip) \<noteq> Skipped" for s' evs' t th ip
    using o_path_publish [of env s' f evs' slot t th ip] by auto
  then show ?thesis
    by (simp add: generateAndPost_def Let_def split: sum.splits)
qed

lemma main_exempt:
  assumes "determineSlot (config env) (slotDraws env) (hourJST (clockRun env))
             (loadedState env) \<in> set skipExemptSlots"
  shows "o_path (main env) \<noteq> Skipped"
  using assms o_path_generateAndPost
  by (simp add: main_def loadedState_def Let_def)

text \<open>
  C3. \<open>calculateSkipProbability\<close> is 0.05 when \<open>minutesSinceLastPost\<close> is \<open>null\<close>, 0.03
  below 60 minutes, 0.08 from 60 to below 120, 0.20 from 120 on while
  \<open>today_skip_count < 2\<close>, and 0.05 from 120 on once \<open>today_skip_count \<ge> 2\<close>. When the slot
  chosen for the run is morning, goodnight or simple_goodnight, the run does not end in
  the skip branch, whatever the draws are.
\<close>

theorem skip_probability_and_exempt_slots:
  "(minutesSinceLastPost clk s = None \<longrightarrow> calculateSkipProbability clk s = 5 / 100)
   \<and> (\<forall>m. minutesSinceLastPost clk s = Some m \<and> m < 60
          \<longrightarrow> calculateSkipProbability clk s = 3 / 100)
   \<and> (\<forall>m. minutesSinceLastPost clk s = Some m \<and> 60 \<le> m \<and> m < 120
          \<longrightarrow> calculateSkipProbability clk s = 8 / 100)
   \<and> (\<forall>m. minutesSinceLastPost clk s = Some m \<and> 120 \<le> m \<and> today_skip_count s < 2
          \<longrightarrow> calculateSkipProbability clk s = 20 / 100)
   \<and> (\<forall>m. minutesSinceLastPost clk s = Some m \<and> 120 \<le> m \<and> 2 \<le> today_skip_count s
          \<longrightarrow> calculateSkipProbability clk s = 5 / 100)
   \<and> (determineSlot (config env) (slotDraws env) (hourJST (clockRun env)) (loadedState env)
         \<in> {''morning'', ''goodnight'', ''simple_goodnight''}
        \<longrightarrow> o_path (main env) \<noteq> Skipped)"
proof -
  have exempt: "o_path (main env) \<noteq> Skipped"
    if "determineSlot (config env) (slotDraws env) (hourJST (clockRun env)) (loadedState env)
          \<in> {''morning'', ''goodnight'', ''simple_goodnight''}"
    using that by (intro main_exempt) (auto simp: skipExemptSlots_def)
  show ?thesis
    using exempt by (simp add: calculateSkipProbability_def)
qed

text \<open>
  The sample state was last posted to 1440 minutes before the sample clock and counts one
  skip: probability 0.20. At 6 o'clock the slot is morning, and the run does not skip even
  with the draw 0, which is below every skip probability.
\<close>

theorem skip_probability_and_exempt_slots_witness:
  "minutesSinceLastPost sampleClock (migrate (0, 0) sampleStored) = Some 1440
   \<and> today_skip_count (migrate (0, 0) sampleStored) = 1
   \<and> calculateSkipProbability sampleClock (migrate (0, 0) sampleStored) = 20 / 100
   \<and> determineSlot (config (sampleEnv\<lparr>clockRun := sampleClock\<lparr>hourJST := 6\<rparr>, skipDraw := 0\<rparr>))
        (slotDraws (sampleEnv\<lparr>clockRun := sampleClock\<lparr>hourJST := 6\<rparr>, skipDraw := 0\<rparr>))
        (hourJST (clockRun (sampleEnv\<lparr>clockRun := sampleClock\<lparr>hourJST := 6\<rparr>, skipDraw := 0\<rparr>)))
        (loadedState (sampleEnv\<lparr>clockRun := sampleClock\<lparr>hourJST := 6\<rparr>, skipDraw := 0\<rparr>))
       = ''morning''
   \<and> o_path (main (sampleEnv\<lparr>clockRun := sampleClock\<lparr>hourJST := 6\<rparr>, skipDraw := 0\<rparr>))
       \<noteq> Skipped"
proof -
  let ?s = "migrate (0, 0) sampleStored"
  let ?env = "sampleEnv\<lparr>clockRun := sampleClock\<lparr>hourJST := 6\<rparr>, skipDraw := 0\<rparr>"
  have minutes: "minutesSinceLastPost sampleClock ?s = Some 1440"
    by (simp add: minutesSinceLastPost_def migrate_def sampleStored_def sampleClock_def)
  have skips: "today_skip_count ?s = 1"
    by (simp add: migrate_def sampleStored_def)
  have rolled: "\<not> isSameJSTDay sampleClock (r_last_post_date sampleStored)"
    by (simp add: isSameJSTDay_def sampleClock_def sampleStored_def)
  have morning: "\<not> today_morning_posted (loadedState ?env)"
    using rolled
    by (simp add: loadedState_def loadState_Stored monthRollover_per_day dayRollover_def
        migrate_def sampleEnv_def)
  have slot: "determineSlot (config ?env) (slotDraws ?env) (hourJST (clockRun ?env))
      (loadedState ?env) = ''morning''"
    using morning by (simp add: determineSlot_def)
  show ?thesis
    using minutes skips slot skip_probability_and_exempt_slots [of sampleClock ?s ?env]
    by simp
qed

subsection \<open>C2: a failed publish\<close>
















end
